theory Spec2Isabelle
  imports Main
begin

section \<open>JavaScript values and string primitives\<close>

text \<open>
  The organisation service (\<^verbatim>\<open>src/cc/OrgCrudService.js\<close>) reads spreadsheet cells and
  plain objects. A cell holds a string, a boolean, a number or a date; a missing column reads
  as \<^verbatim>\<open>undefined\<close>, and update payloads may carry \<^verbatim>\<open>null\<close>. A number \<open>Num n\<close> is an
  integer of magnitude up to \<^verbatim>\<open>Number.MAX_SAFE_INTEGER\<close>, where the number type holds every
  integer and \<^verbatim>\<open>String\<close> prints the plain decimal numeral (fractions and larger magnitudes
  do not occur in the identifier columns the service interprets); a date carries the text
  \<^verbatim>\<open>String(d)\<close> yields, and a string is a list of characters with the code points U+0000
  to U+00FF.
\<close>

datatype jsval = Undefined | Null | Str string | Bool bool | Num int | DateV string

text \<open>Truthiness, as \<^verbatim>\<open>!v\<close>, \<^verbatim>\<open>v || d\<close> and \<^verbatim>\<open>if (v)\<close> test it.\<close>

fun truthy :: "jsval \<Rightarrow> bool" where
  "truthy Undefined = False"
| "truthy Null = False"
| "truthy (Str s) = (s \<noteq> [])"
| "truthy (Bool b) = b"
| "truthy (Num n) = (n \<noteq> 0)"
| "truthy (DateV d) = True"

text \<open>Decimal rendering, \<^verbatim>\<open>String(n)\<close> for an integer \<^verbatim>\<open>n\<close>.\<close>

definition digitChar :: "nat \<Rightarrow> char" where
  "digitChar d = ''0123456789'' ! d"

fun showNat :: "nat \<Rightarrow> string" where
  "showNat n = (if n < 10 then [digitChar n] else showNat (n div 10) @ [digitChar (n mod 10)])"

declare showNat.simps [simp del]

definition showInt :: "int \<Rightarrow> string" where
  "showInt i = (if i < 0 then CHR ''-'' # showNat (nat (- i)) else showNat (nat i))"

text \<open>\<^verbatim>\<open>String(v)\<close>.\<close>

fun toStr :: "jsval \<Rightarrow> string" where
  "toStr Undefined = ''undefined''"
| "toStr Null = ''null''"
| "toStr (Str s) = s"
| "toStr (Bool b) = (if b then ''true'' else ''false'')"
| "toStr (Num n) = showInt n"
| "toStr (DateV d) = d"

text \<open>\<^verbatim>\<open>String(v || '')\<close>, the coercion applied to almost every cell.\<close>

definition strOr :: "jsval \<Rightarrow> string" where
  "strOr v = (if truthy v then toStr v else [])"

text \<open>\<^verbatim>\<open>s.trim()\<close>: white space and line terminators are removed at both ends. Among the
  characters up to U+00FF these are the tab, the line feed, the vertical tab, the form feed,
  the carriage return, the space and the no-break space.\<close>

definition isSpace :: "char \<Rightarrow> bool" where
  "isSpace c =
     (c \<in> set [CHR 0x09, CHR 0x0A, CHR 0x0B, CHR 0x0C, CHR 0x0D, CHR '' '', CHR 0xA0])"

definition trim :: "string \<Rightarrow> string" where
  "trim s = rev (dropWhile isSpace (rev (dropWhile isSpace s)))"

text \<open>\<^verbatim>\<open>s.toLowerCase()\<close>: the letters that have a lower-case form, and these forms, among
  the characters up to U+00FF (the capitals of the Latin alphabet and of its Latin-1
  supplement).\<close>

definition upperCaseLetters :: string where
  "upperCaseLetters =
     ''ABCDEFGHIJKLMNOPQRSTUVWXYZ'' @
     [CHR 0xC0, CHR 0xC1, CHR 0xC2, CHR 0xC3, CHR 0xC4, CHR 0xC5, CHR 0xC6, CHR 0xC7,
      CHR 0xC8, CHR 0xC9, CHR 0xCA, CHR 0xCB, CHR 0xCC, CHR 0xCD, CHR 0xCE, CHR 0xCF,
      CHR 0xD0, CHR 0xD1, CHR 0xD2, CHR 0xD3, CHR 0xD4, CHR 0xD5, CHR 0xD6, CHR 0xD8,
      CHR 0xD9, CHR 0xDA, CHR 0xDB, CHR 0xDC, CHR 0xDD, CHR 0xDE]"

definition lowerCaseLetters :: string where
  "lowerCaseLetters =
     ''abcdefghijklmnopqrstuvwxyz'' @
     [CHR 0xE0, CHR 0xE1, CHR 0xE2, CHR 0xE3, CHR 0xE4, CHR 0xE5, CHR 0xE6, CHR 0xE7,
      CHR 0xE8, CHR 0xE9, CHR 0xEA, CHR 0xEB, CHR 0xEC, CHR 0xED, CHR 0xEE, CHR 0xEF,
      CHR 0xF0, CHR 0xF1, CHR 0xF2, CHR 0xF3, CHR 0xF4, CHR 0xF5, CHR 0xF6, CHR 0xF8,
      CHR 0xF9, CHR 0xFA, CHR 0xFB, CHR 0xFC, CHR 0xFD, CHR 0xFE]"

definition lowerChar :: "char \<Rightarrow> char" where
  "lowerChar c =
     (case map_of (zip upperCaseLetters lowerCaseLetters) c of
        None \<Rightarrow> c
      | Some d \<Rightarrow> d)"

definition toLowerCase :: "string \<Rightarrow> string" where
  "toLowerCase s = map lowerChar s"

text \<open>\<^verbatim>\<open>s.startsWith(p)\<close>.\<close>

definition startsWith :: "string \<Rightarrow> string \<Rightarrow> bool" where
  "startsWith s p = (take (length p) s = p)"

text \<open>\<^verbatim>\<open>s.padStart(n, c)\<close> for a one-character filler: a string already \<^verbatim>\<open>n\<close> long or
  longer is returned as it is.\<close>

definition padStart :: "nat \<Rightarrow> char \<Rightarrow> string \<Rightarrow> string" where
  "padStart n c s = replicate (n - length s) c @ s"

text \<open>
  The result of arithmetic on text is a double. Every integer of magnitude up to
  \<^verbatim>\<open>Number.MAX_SAFE_INTEGER\<close> is held exactly, and so is that bound plus one. Beyond it
  \<^verbatim>\<open>parseInt\<close> rounds (and may approximate as the engine likes from the 21st significant
  digit on), sums round, and \<^verbatim>\<open>String\<close> turns to exponent notation: of such a value only the
  side on which it lies is kept.
\<close>

definition MAX_SAFE_INTEGER :: int where
  "MAX_SAFE_INTEGER = 9007199254740991"

datatype jsnum = Exact int | AboveSafe | BelowSafe

text \<open>
  \<^verbatim>\<open>a > b\<close>. A value above the safe range exceeds every exact one and a value below it
  exceeds none. Between two values on the same side the answer is not determined here, and is
  given as \<open>False\<close>: the greater of the two lies on that side whichever way it goes.
\<close>

fun exceeds :: "jsnum \<Rightarrow> jsnum \<Rightarrow> bool" where
  "exceeds (Exact a) (Exact b) = (a > b)"
| "exceeds AboveSafe (Exact b) = True"
| "exceeds BelowSafe (Exact b) = False"
| "exceeds (Exact a) AboveSafe = False"
| "exceeds AboveSafe AboveSafe = False"
| "exceeds BelowSafe AboveSafe = False"
| "exceeds (Exact a) BelowSafe = True"
| "exceeds AboveSafe BelowSafe = True"
| "exceeds BelowSafe BelowSafe = False"

text \<open>
  \<^verbatim>\<open>parseInt(s, 10)\<close>: leading white space is skipped, one sign is accepted, then the longest
  run of decimal digits is read. \<open>None\<close> is \<^verbatim>\<open>NaN\<close> (no digit was found).
\<close>

definition isDigit :: "char \<Rightarrow> bool" where
  "isDigit c = (c \<in> set ''0123456789'')"

definition digitVal :: "char \<Rightarrow> nat" where
  "digitVal c = (case map_of (zip ''0123456789'' [0, 1, 2, 3, 4, 5, 6, 7, 8, 9]) c of
                   None \<Rightarrow> 0
                 | Some d \<Rightarrow> d)"

definition digitsVal :: "string \<Rightarrow> nat" where
  "digitsVal ds = foldl (\<lambda>acc c. 10 * acc + digitVal c) 0 ds"

definition parseInt :: "string \<Rightarrow> jsnum option" where
  "parseInt s =
     (let s1 = dropWhile isSpace s;
          neg = (s1 \<noteq> [] \<and> hd s1 = CHR ''-'');
          s2 = (if s1 \<noteq> [] \<and> (hd s1 = CHR ''-'' \<or> hd s1 = CHR ''+'') then tl s1 else s1);
          ds = takeWhile isDigit s2
      in if ds = [] then None
         else if int (digitsVal ds) \<le> MAX_SAFE_INTEGER
              then Some (Exact (if neg then - int (digitsVal ds) else int (digitsVal ds)))
              else Some (if neg then BelowSafe else AboveSafe))"

text \<open>\<^verbatim>\<open>name.split(' ')\<close> as the write paths use it: \<^verbatim>\<open>parts[0]\<close> and
  \<^verbatim>\<open>parts.slice(1).join(' ')\<close>.\<close>

definition splitFirst :: "string \<Rightarrow> string" where
  "splitFirst s = takeWhile (\<lambda>c. c \<noteq> CHR '' '') s"

definition splitRest :: "string \<Rightarrow> string" where
  "splitRest s = drop 1 (dropWhile (\<lambda>c. c \<noteq> CHR '' '') s)"

text \<open>A plain object with string keys in insertion order, as \<^verbatim>\<open>Object.keys\<close> lists them.\<close>

type_synonym jsobj = "(string \<times> jsval) list"

definition objGet :: "jsobj \<Rightarrow> string \<Rightarrow> jsval" where
  "objGet obj k = (case map_of obj k of None \<Rightarrow> Undefined | Some v \<Rightarrow> v)"

fun objSet :: "jsobj \<Rightarrow> string \<Rightarrow> jsval \<Rightarrow> jsobj" where
  "objSet [] k v = [(k, v)]"
| "objSet ((k', v') # rest) k v =
     (if k' = k then (k, v) # rest else (k', v') # objSet rest k v)"

text \<open>
  The lookup tables the service builds (\<^verbatim>\<open>const colMap = {}\<close>, \<^verbatim>\<open>contractDirectors\<close>,
  \<^verbatim>\<open>taskMeta\<close>, \<^verbatim>\<open>teamToTask\<close>) are plain objects, keyed by text that comes from the
  sheets. A plain object inherits the members of \<^verbatim>\<open>Object.prototype\<close>: reading a key it does
  not own gives the inherited function (for \<^verbatim>\<open>__proto__\<close> the prototype itself) when the key is
  one of the names below, and \<^verbatim>\<open>undefined\<close> otherwise. Both inherited values are truthy and
  neither is a string. Assigning a string or a number under \<^verbatim>\<open>__proto__\<close> creates no property.
  A table is the partial map of its own properties.
\<close>

definition objectPrototypeKeys :: "string list" where
  "objectPrototypeKeys =
     [''constructor'', ''__defineGetter__'', ''__defineSetter__'', ''hasOwnProperty'',
      ''__lookupGetter__'', ''__lookupSetter__'', ''isPrototypeOf'', ''propertyIsEnumerable'',
      ''toString'', ''valueOf'', ''__proto__'', ''toLocaleString'']"

datatype 'a propRead = Own 'a | Inherited | Missing

definition propGet :: "(string \<rightharpoonup> 'a) \<Rightarrow> string \<Rightarrow> 'a propRead" where
  "propGet obj k =
     (case obj k of
        Some v \<Rightarrow> Own v
      | None \<Rightarrow> if k \<in> set objectPrototypeKeys then Inherited else Missing)"

definition propSet :: "(string \<rightharpoonup> 'a) \<Rightarrow> string \<Rightarrow> 'a \<Rightarrow> (string \<rightharpoonup> 'a)" where
  "propSet obj k v = (if k = ''__proto__'' then obj else obj(k \<mapsto> v))"

section \<open>Data model\<close>

text \<open>
  The identifiers of the synthetic nodes.
\<close>

definition ID_PREFIX_TASK :: string where "ID_PREFIX_TASK = ''task:''"
definition ID_PREFIX_TEAM :: string where "ID_PREFIX_TEAM = ''team:''"
definition ID_ROOT :: string where "ID_ROOT = ''root''"

text \<open>
  A sheet is the two-dimensional array \<^verbatim>\<open>getDataRange().getValues()\<close> returns, header row
  first; \<^verbatim>\<open>colMap\<close> maps a trimmed header to its column.
\<close>

type_synonym sheet = "jsval list list"
type_synonym colmap = "string \<rightharpoonup> nat"

text \<open>
  The raw personnel record \<^verbatim>\<open>_readTeamListRaw\<close> builds for a row. The fields the tree
  derivation, the identifier generation and the queries read are kept under their source
  names; the remaining ones (names and roles, company, secondary workstream, supervisor
  email, the date columns, picture, LCAT, location, tenure) are copied from the row to the
  node without being inspected and are left out.
\<close>

record personnel =
  employeeCode :: string
  upid :: string
  cpc :: string
  hid :: string
  supervisorUpid :: string
  contract :: string
  task :: string
  primaryWorkstream :: string
  email :: string
  personnelContractStatus :: string
  nodeType :: string
  portfolioLeadership :: bool
  activeInOrg :: bool
  rowIndex :: nat

text \<open>
  A Team Mappings row as \<^verbatim>\<open>TeamsCrudService.getAllTeams()\<close> delivers it (text cells), with
  the fields the derivation reads: \<open>tcontract\<close>, \<open>ttask\<close> are the source's
  \<^verbatim>\<open>contract\<close> and \<^verbatim>\<open>task\<close>.
\<close>

record team =
  tcontract :: string
  ttask :: string
  teamId :: string
  teamName :: string
  isActive :: bool

text \<open>An entry of \<^verbatim>\<open>getTaskMetadata()\<close>: of its fields only \<^verbatim>\<open>contract\<close> is read for
  the tree, the others (task name, colour, description, thresholds) are display data.\<close>

record taskMeta =
  metaContract :: string

text \<open>A never-filled vacancy as \<^verbatim>\<open>getAllVacantPositions()\<close> delivers it (every field is
  \<^verbatim>\<open>String(cell || '')\<close>); \<open>vtask\<close>, \<open>vteam\<close>, \<open>vcontract\<close>,
  \<open>vsupervisorUpid\<close> are the source's \<^verbatim>\<open>task\<close>, \<^verbatim>\<open>team\<close>, \<^verbatim>\<open>contract\<close>,
  \<^verbatim>\<open>supervisorUpid\<close>.\<close>

record vacancy =
  vacantId :: string
  vcontract :: string
  vtask :: string
  vteam :: string
  vsupervisorUpid :: string

text \<open>
  What the field \<^verbatim>\<open>parentId\<close> of a node holds: \<^verbatim>\<open>null\<close> (the root), a string, or, for a task
  node whose contract is spelled like a member of \<^verbatim>\<open>Object.prototype\<close>, that inherited
  member, which is the id of no node.
\<close>

datatype parentRef = NullRef | IdRef string | InheritedRef

text \<open>
  The unified node of the result list: \<open>nid\<close> is the source's \<^verbatim>\<open>id\<close>, \<open>ntype\<close> its
  \<^verbatim>\<open>type\<close>; in \<open>ntask\<close> and \<open>nteam\<close>, \<open>None\<close> is \<^verbatim>\<open>null\<close>. Names, titles, colours,
  descriptions, thresholds and the personnel detail fields are display data and are left out.
\<close>

record node =
  nid :: string
  parentId :: parentRef
  ncontract :: string
  ntask :: "string option"
  nteam :: "string option"
  nemail :: string
  ntype :: string
  isStructural :: bool
  isVacantPosition :: bool

text \<open>\<^verbatim>\<open>s || null\<close> on a string.\<close>

definition orNull :: "string \<Rightarrow> string option" where
  "orNull s = (if s = [] then None else Some s)"

section \<open>Personnel reader: \<^verbatim>\<open>_readTeamListRaw\<close>\<close>

text \<open>
  \<^verbatim>\<open>headers.forEach((header, index) => { colMap[String(header).trim()] = index; })\<close>:
  a later column of the same name overwrites an earlier one.
\<close>

fun buildColMap :: "jsval list \<Rightarrow> nat \<Rightarrow> colmap \<Rightarrow> colmap" where
  "buildColMap [] i m = m"
| "buildColMap (h # hs) i m = buildColMap hs (Suc i) (propSet m (trim (toStr h)) i)"

definition colMapOf :: "jsval list \<Rightarrow> colmap" where
  "colMapOf headers = buildColMap headers 0 Map.empty"

text \<open>\<^verbatim>\<open>row[colMap[h]]\<close>: an unknown header, or a column beyond the row, reads
  \<^verbatim>\<open>undefined\<close>. The headers \<open>h\<close> the service asks for are the fixed column names, none of
  them a member of \<^verbatim>\<open>Object.prototype\<close>.\<close>

definition cellAt :: "colmap \<Rightarrow> jsval list \<Rightarrow> string \<Rightarrow> jsval" where
  "cellAt colMap row h =
     (case colMap h of
        None \<Rightarrow> Undefined
      | Some i \<Rightarrow> if i < length row then row ! i else Undefined)"

text \<open>The level table \<^verbatim>\<open>CONFIG.ORG.CPC_LEVEL_MAP\<close> of \<^verbatim>\<open>src/cc/config.js\<close>, which is also
  the reader's built-in default.\<close>

definition CPC_LEVEL_MAP :: "char \<rightharpoonup> string" where
  "CPC_LEVEL_MAP =
     [CHR ''1'' \<mapsto> ''director'', CHR ''2'' \<mapsto> ''deputy'', CHR ''3'' \<mapsto> ''lead'',
      CHR ''4'' \<mapsto> ''person'']"

text \<open>The three spellings the reader takes for an explicit "no" in \<^verbatim>\<open>Active In Org\<close>, and
  the three it takes for "yes" in \<^verbatim>\<open>Portfolio Leadership?\<close>.\<close>

definition isExplicitFalse :: "jsval \<Rightarrow> bool" where
  "isExplicitFalse v = (v = Bool False \<or> v = Str ''FALSE'' \<or> v = Str ''false'')"

definition isLeadershipFlag :: "jsval \<Rightarrow> bool" where
  "isLeadershipFlag v = (v = Bool True \<or> v = Str ''TRUE'' \<or> v = Str ''Yes'')"

text \<open>
  Lines 178 to 195: the node type before the departure rule. The cell \<^verbatim>\<open>Node Type\<close> is
  trimmed and lower-cased; only when it is empty is the type derived from the first character
  of the CPC, and only then is the leadership flag looked at.
\<close>

definition explicitNodeType :: "colmap \<Rightarrow> jsval list \<Rightarrow> string" where
  "explicitNodeType colMap row = toLowerCase (trim (strOr (cellAt colMap row ''Node Type'')))"

definition cpcLevelType :: "(char \<rightharpoonup> string) \<Rightarrow> string \<Rightarrow> string" where
  "cpcLevelType cpcMap cpcText =
     (if cpcText \<noteq> [] then
        (case cpcMap (hd cpcText) of
           None \<Rightarrow> ''person''
         | Some t \<Rightarrow> if t = [] then ''person'' else t)
      else ''person'')"

definition deriveNodeType :: "(char \<rightharpoonup> string) \<Rightarrow> colmap \<Rightarrow> jsval list \<Rightarrow> string" where
  "deriveNodeType cpcMap colMap row =
     (let nodeType0 = explicitNodeType colMap row
      in if nodeType0 = [] then
           (let derived = cpcLevelType cpcMap
                            (strOr (cellAt colMap row ''Contract Personnel Code (CPC)''))
            in if isLeadershipFlag (cellAt colMap row ''Portfolio Leadership?'')
                  \<and> derived = ''person''
               then ''director'' else derived)
         else nodeType0)"

text \<open>
  One turn of the loop over the data rows, for the row at array index \<open>i\<close>: \<open>None\<close> is
  \<^verbatim>\<open>continue\<close> (a blank row, or a departed person whose position is closed).
\<close>

definition readRow :: "(char \<rightharpoonup> string) \<Rightarrow> colmap \<Rightarrow> nat \<Rightarrow> jsval list \<Rightarrow> personnel option" where
  "readRow cpcMap colMap i row =
     (let upidCell = cellAt colMap row ''Unique Personnel ID (UPID)'';
          emailCell = cellAt colMap row ''Email''
      in if \<not> truthy upidCell \<and> \<not> truthy emailCell then None
         else
           (let personnelStatus = trim (strOr (cellAt colMap row ''Personnel Contract Status''));
                activeCell = cellAt colMap row ''Active In Org''
            in if personnelStatus = ''Departed'' \<and> isExplicitFalse activeCell then None
               else
                 (let derived = deriveNodeType cpcMap colMap row;
                      isDeparted = (personnelStatus = ''Departed'');
                      finalType =
                        (if isDeparted \<and> \<not> isExplicitFalse activeCell then ''vacant''
                         else derived)
                  in Some \<lparr>
                       employeeCode = strOr (cellAt colMap row ''Employee Code''),
                       upid = strOr upidCell,
                       cpc = strOr (cellAt colMap row ''Contract Personnel Code (CPC)''),
                       hid = strOr (cellAt colMap row ''Heirarchy Identifier (HID)''),
                       supervisorUpid = trim (strOr (cellAt colMap row ''Supervisor UPID'')),
                       contract = strOr (cellAt colMap row ''Contract''),
                       task = strOr (cellAt colMap row ''Task''),
                       primaryWorkstream = strOr (cellAt colMap row ''Primary Workstream''),
                       email = trim (strOr emailCell),
                       personnelContractStatus = personnelStatus,
                       nodeType = finalType,
                       portfolioLeadership =
                         isLeadershipFlag (cellAt colMap row ''Portfolio Leadership?''),
                       activeInOrg = (\<not> isExplicitFalse activeCell),
                       rowIndex = i + 1 \<rparr>)))"

text \<open>The loop \<^verbatim>\<open>for (let i = 1; i < data.length; i++)\<close>, started at index \<open>i\<close> over the
  rows that remain.\<close>

fun readRows :: "(char \<rightharpoonup> string) \<Rightarrow> colmap \<Rightarrow> nat \<Rightarrow> sheet \<Rightarrow> personnel list" where
  "readRows cpcMap colMap i [] = []"
| "readRows cpcMap colMap i (row # rows) =
     (case readRow cpcMap colMap i row of
        None \<Rightarrow> readRows cpcMap colMap (Suc i) rows
      | Some p \<Rightarrow> p # readRows cpcMap colMap (Suc i) rows)"

text \<open>\<^verbatim>\<open>_readTeamListRaw\<close> on the values of the sheet (cold raw cache).\<close>

definition readTeamListRaw :: "(char \<rightharpoonup> string) \<Rightarrow> sheet \<Rightarrow> personnel list" where
  "readTeamListRaw cpcMap data =
     (if length data < 2 then []
      else readRows cpcMap (colMapOf (hd data)) 1 (tl data))"

section \<open>Structural node deriver: \<^verbatim>\<open>getTaskMetadata\<close> and \<^verbatim>\<open>_deriveStructuralNodes\<close>\<close>

text \<open>
  \<^verbatim>\<open>getTaskMetadata\<close> (TeamsCrudService): the first mapping row of a task, active or not,
  creates the entry, and its contract is never changed afterwards. The test
  \<^verbatim>\<open>!taskMeta[team.task]\<close> also fails for a task spelled like a member of
  \<^verbatim>\<open>Object.prototype\<close>: no entry is created for it, the later rows decorate the inherited
  member with display data.
\<close>

definition metaStep :: "(string \<rightharpoonup> taskMeta) \<Rightarrow> team \<Rightarrow> (string \<rightharpoonup> taskMeta)" where
  "metaStep m t =
     (if ttask t = [] then m
      else case propGet m (ttask t) of
             Missing \<Rightarrow> m(ttask t \<mapsto> \<lparr> metaContract = tcontract t \<rparr>)
           | Own meta \<Rightarrow> m
           | Inherited \<Rightarrow> m)"

definition getTaskMetadata :: "team list \<Rightarrow> (string \<rightharpoonup> taskMeta)" where
  "getTaskMetadata teams = foldl metaStep Map.empty teams"

text \<open>A \<^verbatim>\<open>Set\<close> keeps the order of first insertion.\<close>

definition setAdd :: "string list \<Rightarrow> string \<Rightarrow> string list" where
  "setAdd xs x = (if x \<in> set xs then xs else xs @ [x])"

definition collectTaskIds :: "team list \<Rightarrow> personnel list \<Rightarrow> string list" where
  "collectTaskIds teams ps =
     foldl (\<lambda>acc p. if task p \<noteq> [] then setAdd acc (task p) else acc)
       (foldl (\<lambda>acc t. if ttask t \<noteq> [] \<and> isActive t then setAdd acc (ttask t) else acc) [] teams)
       ps"

definition buildTeamToTask :: "team list \<Rightarrow> (string \<rightharpoonup> string)" where
  "buildTeamToTask teams =
     foldl (\<lambda>m t. if teamId t \<noteq> [] \<and> isActive t then propSet m (teamId t) (ttask t) else m)
       Map.empty teams"

text \<open>\<^verbatim>\<open>contractDirectors\<close>: the last director of a contract wins.\<close>

definition directorStep :: "(string \<rightharpoonup> string) \<Rightarrow> personnel \<Rightarrow> (string \<rightharpoonup> string)" where
  "directorStep m p =
     (if nodeType p = ''director'' \<and> contract p \<noteq> [] \<and> upid p \<noteq> []
      then propSet m (contract p) (upid p) else m)"

definition buildContractDirectors :: "personnel list \<Rightarrow> (string \<rightharpoonup> string)" where
  "buildContractDirectors ps = foldl directorStep Map.empty ps"

text \<open>One turn of \<^verbatim>\<open>taskIds.forEach\<close>: \<^verbatim>\<open>taskMeta[taskId] || {}\<close> has a contract only
  when the entry is the table's own, and \<^verbatim>\<open>contractDirectors[contract] || null\<close> is the
  inherited member when the contract is spelled like one and no director owns the key.\<close>

definition contractOfTask :: "(string \<rightharpoonup> taskMeta) \<Rightarrow> string \<Rightarrow> string" where
  "contractOfTask tmeta taskId =
     (case propGet tmeta taskId of
        Own meta \<Rightarrow> metaContract meta
      | Inherited \<Rightarrow> []
      | Missing \<Rightarrow> [])"

definition mkTaskNode :: "(string \<rightharpoonup> taskMeta) \<Rightarrow> (string \<rightharpoonup> string) \<Rightarrow> string \<Rightarrow> node" where
  "mkTaskNode tmeta directors taskId =
     (let mcontract = contractOfTask tmeta taskId;
          directorUpid = (case propGet directors mcontract of
                            Own u \<Rightarrow> if u = [] then NullRef else IdRef u
                          | Inherited \<Rightarrow> InheritedRef
                          | Missing \<Rightarrow> NullRef)
      in \<lparr> nid = ID_PREFIX_TASK @ taskId,
           parentId = (case directorUpid of NullRef \<Rightarrow> IdRef ID_ROOT | r \<Rightarrow> r),
           ncontract = mcontract,
           ntask = Some taskId,
           nteam = None,
           nemail = [],
           ntype = ''task'',
           isStructural = True,
           isVacantPosition = False \<rparr>)"

definition mkTeamNode :: "team \<Rightarrow> node" where
  "mkTeamNode t =
     \<lparr> nid = ID_PREFIX_TEAM @ teamId t,
       parentId = IdRef (ID_PREFIX_TASK @ ttask t),
       ncontract = tcontract t,
       ntask = Some (ttask t),
       nteam = Some (teamId t),
       nemail = [],
       ntype = ''team'',
       isStructural = True,
       isVacantPosition = False \<rparr>"

definition rootNode :: node where
  "rootNode =
     \<lparr> nid = ID_ROOT, parentId = NullRef, ncontract = [], ntask = None, nteam = None,
       nemail = [], ntype = ''hidden'',
       isStructural = True, isVacantPosition = False \<rparr>"

definition taskNodesOf :: "team list \<Rightarrow> personnel list \<Rightarrow> node list" where
  "taskNodesOf teams ps =
     map (mkTaskNode (getTaskMetadata teams) (buildContractDirectors ps))
       (collectTaskIds teams ps)"

definition teamNodesOf :: "team list \<Rightarrow> node list" where
  "teamNodesOf teams = map mkTeamNode (filter (\<lambda>t. teamId t \<noteq> [] \<and> isActive t) teams)"

section \<open>Parent resolver: \<^verbatim>\<open>_resolveParentId\<close>\<close>

text \<open>
  Each rule of the cascade is a function whose \<open>Some r\<close> is \<^verbatim>\<open>return r\<close> and whose \<open>None\<close>
  falls through to the next statement. \<open>teams\<close> is what \<^verbatim>\<open>TeamsCrudService.getAllTeams()\<close>
  answers inside the function.
\<close>

definition teamMatches :: "personnel \<Rightarrow> team \<Rightarrow> bool" where
  "teamMatches person t =
     (teamName t = primaryWorkstream person \<and> ttask t = task person \<and> isActive t)"

definition findTeam :: "team list \<Rightarrow> personnel \<Rightarrow> team option" where
  "findTeam teams person = find (teamMatches person) teams"

text \<open>Rule 2a, lines 398 to 409.\<close>

definition teamRule :: "team list \<Rightarrow> personnel \<Rightarrow> string set \<Rightarrow> string option" where
  "teamRule teams person teamNodeIds =
     (if primaryWorkstream person \<noteq> [] then
        (case findTeam teams person of
           None \<Rightarrow> None
         | Some matchedTeam \<Rightarrow>
             if teamId matchedTeam \<noteq> [] \<and> ID_PREFIX_TEAM @ teamId matchedTeam \<in> teamNodeIds
             then Some (ID_PREFIX_TEAM @ teamId matchedTeam)
             else None)
      else None)"

text \<open>Rule 2b, lines 412 to 417.\<close>

definition sameTaskSupervisorRule :: "personnel \<Rightarrow> (string \<rightharpoonup> personnel) \<Rightarrow> string option" where
  "sameTaskSupervisorRule person upidMap =
     (if supervisorUpid person \<noteq> [] then
        (case upidMap (supervisorUpid person) of
           None \<Rightarrow> None
         | Some supervisor \<Rightarrow>
             if task supervisor = task person then Some (supervisorUpid person) else None)
      else None)"

text \<open>Rule 2c, lines 420 to 423.\<close>

definition taskRule :: "personnel \<Rightarrow> string set \<Rightarrow> string option" where
  "taskRule person taskNodeIds =
     (if ID_PREFIX_TASK @ task person \<in> taskNodeIds
      then Some (ID_PREFIX_TASK @ task person) else None)"

definition resolveParentId ::
  "team list \<Rightarrow> personnel \<Rightarrow> (string \<rightharpoonup> personnel) \<Rightarrow> (string \<rightharpoonup> string) \<Rightarrow>
   string set \<Rightarrow> string set \<Rightarrow> string" where
  "resolveParentId teams person upidMap teamToTask teamNodeIds taskNodeIds =
     (if nodeType person = ''director'' \<or> nodeType person = ''deputy'' then ID_ROOT
      else
        (case (if task person \<noteq> [] then
                 (case teamRule teams person teamNodeIds of
                    Some r \<Rightarrow> Some r
                  | None \<Rightarrow>
                      (case sameTaskSupervisorRule person upidMap of
                         Some r \<Rightarrow> Some r
                       | None \<Rightarrow> taskRule person taskNodeIds))
               else None) of
           Some r \<Rightarrow> r
         | None \<Rightarrow>
             if supervisorUpid person \<noteq> [] \<and> upidMap (supervisorUpid person) \<noteq> None
             then supervisorUpid person
             else ID_ROOT))"

section \<open>Tree assembler: \<^verbatim>\<open>getAllData\<close> and the queries\<close>

text \<open>\<^verbatim>\<open>upidMap\<close>: a \<^verbatim>\<open>Map\<close> from UPID to record, the last record of a UPID wins.\<close>

definition buildUpidMap :: "personnel list \<Rightarrow> (string \<rightharpoonup> personnel)" where
  "buildUpidMap ps = foldl (\<lambda>m p. if upid p \<noteq> [] then m(upid p \<mapsto> p) else m) Map.empty ps"

text \<open>\<^verbatim>\<open>p.upid || p.email || p.employeeCode\<close>.\<close>

definition personId :: "personnel \<Rightarrow> string" where
  "personId p = (if upid p \<noteq> [] then upid p else if email p \<noteq> [] then email p else employeeCode p)"

definition personNode :: "personnel \<Rightarrow> string \<Rightarrow> node" where
  "personNode p parent =
     \<lparr> nid = personId p,
       parentId = IdRef parent,
       ncontract = contract p,
       ntask = orNull (task p),
       nteam = orNull (primaryWorkstream p),
       nemail = email p,
       ntype = nodeType p,
       isStructural = False,
       isVacantPosition = False \<rparr>"

text \<open>Lines 529 to 538: the parent of a never-filled vacancy.\<close>

definition vacancyFallback :: "vacancy \<Rightarrow> string" where
  "vacancyFallback v =
     (if vteam v \<noteq> [] then ID_PREFIX_TEAM @ vteam v
      else if vtask v \<noteq> [] then ID_PREFIX_TASK @ vtask v
      else ID_ROOT)"

definition vacancyParent :: "vacancy \<Rightarrow> (string \<rightharpoonup> personnel) \<Rightarrow> string" where
  "vacancyParent v upidMap =
     (case orNull (vsupervisorUpid v) of
        None \<Rightarrow> vacancyFallback v
      | Some vParentId \<Rightarrow>
          if upidMap vParentId = None then vacancyFallback v else vParentId)"

definition vacantNode :: "vacancy \<Rightarrow> (string \<rightharpoonup> personnel) \<Rightarrow> node" where
  "vacantNode v upidMap =
     \<lparr> nid = vacantId v,
       parentId = IdRef (vacancyParent v upidMap),
       ncontract = vcontract v,
       ntask = orNull (vtask v),
       nteam = orNull (vteam v),
       nemail = [],
       ntype = ''vacant'',
       isStructural = False,
       isVacantPosition = True \<rparr>"

text \<open>Steps 2 to 6 of \<^verbatim>\<open>getAllData\<close>, from the personnel records on.\<close>

definition resolvedPersonNode :: "team list \<Rightarrow> personnel list \<Rightarrow> personnel \<Rightarrow> node" where
  "resolvedPersonNode teams ps p =
     personNode p
       (resolveParentId teams p (buildUpidMap ps) (buildTeamToTask teams)
          (set (map nid (teamNodesOf teams)))
          (set (map nid (taskNodesOf teams ps))))"

definition personNodesOf :: "team list \<Rightarrow> personnel list \<Rightarrow> node list" where
  "personNodesOf teams ps = map (resolvedPersonNode teams ps) ps"

definition vacantNodesOf :: "vacancy list \<Rightarrow> personnel list \<Rightarrow> node list" where
  "vacantNodesOf vs ps = map (\<lambda>v. vacantNode v (buildUpidMap ps)) vs"

definition assemble :: "team list \<Rightarrow> vacancy list \<Rightarrow> personnel list \<Rightarrow> node list" where
  "assemble teams vs ps =
     rootNode # taskNodesOf teams ps @ teamNodesOf teams @ personNodesOf teams ps
       @ vacantNodesOf vs ps"

text \<open>
  What the service sees of its collaborators: the Team List sheet (\<open>None\<close> when
  \<^verbatim>\<open>_getTeamListSheet\<close> finds none and throws), the answers of
  \<^verbatim>\<open>TeamsCrudService.getAllTeams()\<close> and \<^verbatim>\<open>getAllVacantPositions()\<close> (both empty when that
  service is not loaded), the CPC level table, and whether the caller holds \<^verbatim>\<open>org.edit\<close>.
  The caches hold earlier results of the same computations and are taken cold.

  Modelled from the spec: \<^verbatim>\<open>PermissionService.requirePermission\<close>, whose source is not at
  hand. The write paths call it for its effect only, before their \<^verbatim>\<open>try\<close> block; the
  specification has it raise the permission error when the capability is missing, and that
  error propagates. \<open>editPermitted\<close> says whether the call returns.
\<close>

record store =
  teamList :: "sheet option"
  teamMappings :: "team list"
  vacantPositions :: "vacancy list"
  cpcLevelMap :: "char \<rightharpoonup> string"
  editPermitted :: bool

datatype svcError = SheetNotFound | PermissionDenied | TypeError

text \<open>The \<^verbatim>\<open>try\<close> block of \<^verbatim>\<open>getAllData\<close>: \<open>Inl\<close> is the exception that reaches
  \<^verbatim>\<open>catch\<close>.\<close>

definition getAllData_try :: "store \<Rightarrow> svcError + node list" where
  "getAllData_try st =
     (case teamList st of
        None \<Rightarrow> Inl SheetNotFound
      | Some data \<Rightarrow>
          Inr (assemble (teamMappings st) (vacantPositions st)
                 (readTeamListRaw (cpcLevelMap st) data)))"

definition getAllData :: "store \<Rightarrow> node list" where
  "getAllData st = (case getAllData_try st of Inl e \<Rightarrow> [] | Inr nodes \<Rightarrow> nodes)"

definition getById :: "store \<Rightarrow> string \<Rightarrow> node option" where
  "getById st i = find (\<lambda>p. nid p = i) (getAllData st)"

text \<open>
  \<^verbatim>\<open>getByEmail\<close>: a falsy argument returns before the data are read; a truthy argument
  that is not a string has no \<^verbatim>\<open>toLowerCase\<close>, and the call throws.
\<close>

definition getByEmail :: "store \<Rightarrow> jsval \<Rightarrow> svcError + node list" where
  "getByEmail st e =
     (if \<not> truthy e then Inr []
      else case e of
             Str s \<Rightarrow>
               (let normalizedEmail = trim (toLowerCase s)
                in Inr (filter (\<lambda>p. nemail p \<noteq> [] \<and> trim (toLowerCase (nemail p)) = normalizedEmail)
                          (getAllData st)))
           | _ \<Rightarrow> Inl TypeError)"

text \<open>
  Modelled from the spec: the comparison the specification gives for the lookup by email,
  "lowercased and trimmed", written without the string methods of the code. A capital letter
  is a character whose code is between 65 and 90, or between 192 and 222 and not 215, and its
  small letter is 32 places further on; a blank is one of the seven white-space characters;
  the blanks before the first and after the last other character are dropped. Two addresses
  match when they agree after that.
\<close>

definition isCapital :: "char \<Rightarrow> bool" where
  "isCapital c =
     (let k = (of_char c :: nat) in (65 \<le> k \<and> k \<le> 90) \<or> (192 \<le> k \<and> k \<le> 222 \<and> k \<noteq> 215))"

definition smallOf :: "char \<Rightarrow> char" where
  "smallOf c = (if isCapital c then char_of (of_char c + 32 :: nat) else c)"

definition isBlank :: "char \<Rightarrow> bool" where
  "isBlank c = ((of_char c :: nat) \<in> {9, 10, 11, 12, 13, 32, 160})"

fun stripLeft :: "string \<Rightarrow> string" where
  "stripLeft [] = []"
| "stripLeft (c # cs) = (if isBlank c then stripLeft cs else c # cs)"

fun stripRight :: "string \<Rightarrow> string" where
  "stripRight [] = []"
| "stripRight (c # cs) =
     (let r = stripRight cs in if r = [] \<and> isBlank c then [] else c # r)"

definition normalisedEmail :: "string \<Rightarrow> string" where
  "normalisedEmail s = stripRight (stripLeft (map smallOf s))"

definition emailsMatch :: "string \<Rightarrow> string \<Rightarrow> bool" where
  "emailsMatch a b = (normalisedEmail a = normalisedEmail b)"

text \<open>
  Following parent pointers: \<open>climbs k nodes n\<close> holds when, starting at node \<open>n\<close> and
  moving at most \<open>k\<close> times to the node whose id is the current \<^verbatim>\<open>parentId\<close> (looked up as
  \<^verbatim>\<open>getById\<close> does, first match), the root node is reached.
\<close>

definition isRoot :: "node \<Rightarrow> bool" where
  "isRoot n = (nid n = ID_ROOT \<and> parentId n = NullRef)"

fun climbs :: "nat \<Rightarrow> node list \<Rightarrow> node \<Rightarrow> bool" where
  "climbs 0 nodes n = isRoot n"
| "climbs (Suc k) nodes n =
     (isRoot n \<or>
      (case parentId n of
         IdRef p \<Rightarrow>
           (case find (\<lambda>m. nid m = p) nodes of
              None \<Rightarrow> False
            | Some m \<Rightarrow> climbs k nodes m)
       | _ \<Rightarrow> False))"

text \<open>A parent pointer resolves when some node of the list carries it as id.\<close>

definition parentResolves :: "node list \<Rightarrow> node \<Rightarrow> bool" where
  "parentResolves nodes n =
     (case parentId n of IdRef p \<Rightarrow> p \<in> set (map nid nodes) | _ \<Rightarrow> False)"

text \<open>
  A node is placed when it is structural (root, task, team) or hangs directly under a
  structural node. \<open>placedWithin j nodes n\<close> holds when at most \<open>j\<close> parent steps lead from
  \<open>n\<close> to a placed node; the steps before it are supervisor links, the only parent pointers
  that do not point at a structural node.
\<close>

definition placed :: "node list \<Rightarrow> node \<Rightarrow> bool" where
  "placed nodes n =
     (isStructural n \<or> list_ex (\<lambda>m. isStructural m \<and> parentId n = IdRef (nid m)) nodes)"

fun placedWithin :: "nat \<Rightarrow> node list \<Rightarrow> node \<Rightarrow> bool" where
  "placedWithin 0 nodes n = placed nodes n"
| "placedWithin (Suc j) nodes n =
     (placed nodes n \<or>
      (case parentId n of
         IdRef p \<Rightarrow>
           (case find (\<lambda>m. nid m = p) nodes of
              None \<Rightarrow> False
            | Some m \<Rightarrow> placedWithin j nodes m)
       | _ \<Rightarrow> False))"

section \<open>Write paths: \<^verbatim>\<open>addPerson\<close>, \<^verbatim>\<open>updatePerson\<close>, \<^verbatim>\<open>deletePerson\<close>\<close>

text \<open>
  A write returns \<^verbatim>\<open>{success: true, id}\<close> (\<open>Success id\<close>, with \<open>Undefined\<close> when the
  object has no \<^verbatim>\<open>id\<close>) or \<^verbatim>\<open>{success: false, error}\<close> (\<open>Failure message\<close>). An
  exception raised inside a \<^verbatim>\<open>try\<close> block is caught and becomes a \<open>Failure\<close> with the
  exception's message; the wording of the engine's own \<^verbatim>\<open>TypeError\<close> messages is not
  modelled. An exception outside the block leaves the function: the \<open>Inl\<close> results.
\<close>

datatype apiResult = Success jsval | Failure string

definition errorMessage :: "svcError \<Rightarrow> string" where
  "errorMessage e =
     (case e of
        SheetNotFound \<Rightarrow> ''[OrgCrudService] Team List sheet not found. Register the external spreadsheet via DataStoreRegistry.setSpreadsheetId(\"teamlist\", \"SPREADSHEET_ID\")''
      | PermissionDenied \<Rightarrow> ''PermissionDenied''
      | TypeError \<Rightarrow> ''TypeError'')"

text \<open>\<^verbatim>\<open>sheet.getRange(rowIndex, col).setValue(value)\<close>, both indices counted from 1. The
  row and column come from the values just read, so they lie inside the sheet.\<close>

definition setCell :: "sheet \<Rightarrow> nat \<Rightarrow> nat \<Rightarrow> jsval \<Rightarrow> sheet" where
  "setCell data rowIdx col v = data[rowIdx - 1 := (data ! (rowIdx - 1))[col - 1 := v]]"

text \<open>\<^verbatim>\<open>sheet.appendRow(row)\<close>: the data range stays rectangular, short rows read
  \<^verbatim>\<open>''\<close> in the added columns.\<close>

definition padRow :: "nat \<Rightarrow> jsval list \<Rightarrow> jsval list" where
  "padRow w row = row @ replicate (w - length row) (Str [])"

definition appendRow :: "sheet \<Rightarrow> jsval list \<Rightarrow> sheet" where
  "appendRow data row =
     (let w = foldl max 0 (map length (data @ [row])) in map (padRow w) (data @ [row]))"

text \<open>\<^verbatim>\<open>_generateNextHid\<close>, lines 689 to 697, over the records \<^verbatim>\<open>_readTeamListRaw\<close>
  returned. The running maximum starts at 0. \<open>None\<close>: the maximum lies above the safe range,
  and the text the engine prints for its successor is not determined here.\<close>

definition hidStep :: "jsnum \<Rightarrow> personnel \<Rightarrow> jsnum" where
  "hidStep maxHid p =
     (case parseInt (hid p) of
        None \<Rightarrow> maxHid
      | Some num \<Rightarrow> if exceeds num maxHid then num else maxHid)"

definition maxHidOf :: "personnel list \<Rightarrow> jsnum" where
  "maxHidOf ps = foldl hidStep (Exact 0) ps"

definition generateNextHid :: "personnel list \<Rightarrow> string option" where
  "generateNextHid ps =
     (case maxHidOf ps of
        Exact m \<Rightarrow> Some (padStart 3 (CHR ''0'') (showInt (m + 1)))
      | AboveSafe \<Rightarrow> None
      | BelowSafe \<Rightarrow> None)"

text \<open>\<^verbatim>\<open>v || ''\<close> and \<^verbatim>\<open>a || b || ''\<close> on object fields.\<close>

definition orEmpty :: "jsval \<Rightarrow> jsval" where
  "orEmpty v = (if truthy v then v else Str [])"

definition orElse :: "jsval \<Rightarrow> jsval \<Rightarrow> jsval" where
  "orElse a b = (if truthy a then a else b)"

text \<open>\<^verbatim>\<open>TEAM_LIST_HEADERS\<close>, lines 33 to 62, and \<^verbatim>\<open>_buildTeamListRow\<close>: the cells in the
  order of these headers.\<close>

definition TEAM_LIST_HEADERS :: "string list" where
  "TEAM_LIST_HEADERS =
     [''Employee Code'', ''Company'', ''Contract'', ''Task'', ''Primary Workstream'',
      ''Secondary Workstream'', ''First Name'', ''Last Name'', ''Email'', ''Primary Role'',
      ''Secondary Role'', ''Primary Role Start Date'', ''Contract Personnel Code (CPC)'',
      ''Heirarchy Identifier (HID)'', ''Unique Personnel ID (UPID)'', ''Supervisor Email'',
      ''Supervisor UPID'', ''Portfolio Leadership?'', ''Profile Picture'', ''EOD'',
      ''Personnel Contract Status'', ''Departure Date'', ''Departure Meeting Date'',
      ''Contract LCAT'', ''Location (City, ST)'', ''Tenure (Days)'', ''Node Type'',
      ''Active In Org'']"

definition buildTeamListRow :: "jsobj \<Rightarrow> jsval list" where
  "buildTeamListRow person =
     [orEmpty (objGet person ''employeeCode''),
      orEmpty (objGet person ''company''),
      orEmpty (objGet person ''contract''),
      orEmpty (objGet person ''task''),
      orElse (objGet person ''primaryWorkstream'') (orEmpty (objGet person ''team'')),
      orEmpty (objGet person ''secondaryWorkstream''),
      orEmpty (objGet person ''firstName''),
      orEmpty (objGet person ''lastName''),
      orEmpty (objGet person ''email''),
      orEmpty (objGet person ''primaryRole''),
      orElse (objGet person ''secondaryRole'') (orEmpty (objGet person ''secondaryRoles'')),
      orEmpty (objGet person ''primaryRoleStartDate''),
      orEmpty (objGet person ''cpc''),
      orEmpty (objGet person ''hid''),
      orEmpty (objGet person ''upid''),
      orEmpty (objGet person ''supervisorEmail''),
      orEmpty (objGet person ''supervisorUpid''),
      (if truthy (objGet person ''portfolioLeadership'') then Str ''TRUE'' else Str []),
      orEmpty (objGet person ''profilePicture''),
      orEmpty (objGet person ''eod''),
      orElse (objGet person ''personnelContractStatus'') (Str ''Active''),
      orEmpty (objGet person ''departureDate''),
      orEmpty (objGet person ''departureMeetingDate''),
      orEmpty (objGet person ''contractLcat''),
      orEmpty (objGet person ''location''),
      orEmpty (objGet person ''tenure''),
      orElse (objGet person ''nodeType'') (orElse (objGet person ''type'') (Str ''person'')),
      (if objGet person ''activeInOrg'' \<noteq> Bool False then Str ''TRUE'' else Str ''FALSE'')]"

text \<open>Lines 647 to 652: the UPID is generated only when the caller gave none, and the HID
  only when the caller gave none. \<open>None\<close>: an HID had to be generated and
  \<^verbatim>\<open>_generateNextHid\<close> is not determined.\<close>

definition assignUpid :: "personnel list \<Rightarrow> jsobj \<Rightarrow> jsobj option" where
  "assignUpid ps person =
     (if \<not> truthy (objGet person ''upid'') then
        (let cpcV = orElse (objGet person ''cpc'') (Str ''400'');
             hidV = (if truthy (objGet person ''hid'') then Some (objGet person ''hid'')
                     else map_option Str (generateNextHid ps))
         in case hidV of
              None \<Rightarrow> None
            | Some h \<Rightarrow> Some (objSet person ''upid'' (Str (toStr cpcV @ ''-'' @ toStr h))))
      else Some person)"

text \<open>Lines 654 to 659; \<open>Inl TypeError\<close> when \<^verbatim>\<open>name\<close> is truthy and has no
  \<^verbatim>\<open>split\<close>.\<close>

definition splitNameOnAdd :: "jsobj \<Rightarrow> svcError + jsobj" where
  "splitNameOnAdd person =
     (if truthy (objGet person ''name'')
         \<and> (\<not> truthy (objGet person ''firstName'') \<or> \<not> truthy (objGet person ''lastName''))
      then (case objGet person ''name'' of
              Str s \<Rightarrow>
                (let p1 = objSet person ''firstName''
                            (orElse (objGet person ''firstName'') (Str (splitFirst s)))
                 in Inr (objSet p1 ''lastName''
                           (orElse (objGet p1 ''lastName'') (Str (splitRest s)))))
            | _ \<Rightarrow> Inl TypeError)
      else Inr person)"

text \<open>Lines 661 to 669: \<^verbatim>\<open>title\<close> and \<^verbatim>\<open>reportsTo\<close> stand in for an absent
  \<^verbatim>\<open>primaryRole\<close> and \<^verbatim>\<open>supervisorUpid\<close>.\<close>

definition aliasField :: "string \<Rightarrow> string \<Rightarrow> jsobj \<Rightarrow> jsobj" where
  "aliasField src dst person =
     (if truthy (objGet person src) \<and> \<not> truthy (objGet person dst)
      then objSet person dst (objGet person src) else person)"

text \<open>\<^verbatim>\<open>addPerson\<close>; \<open>None\<close> where \<open>assignUpid\<close> is not determined.\<close>

definition addPerson :: "store \<Rightarrow> jsobj \<Rightarrow> (svcError + (apiResult \<times> store)) option" where
  "addPerson st person =
     (if \<not> editPermitted st then Some (Inl PermissionDenied)
      else case teamList st of
             None \<Rightarrow> Some (Inr (Failure (errorMessage SheetNotFound), st))
           | Some data \<Rightarrow>
               (case assignUpid (readTeamListRaw (cpcLevelMap st) data) person of
                  None \<Rightarrow> None
                | Some p1 \<Rightarrow>
                    (case splitNameOnAdd p1 of
                       Inl e \<Rightarrow> Some (Inr (Failure (errorMessage e), st))
                     | Inr p2 \<Rightarrow>
                         (let p3 = aliasField ''reportsTo'' ''supervisorUpid''
                                     (aliasField ''title'' ''primaryRole'' p2)
                          in Some (Inr (Success (objGet p3 ''upid''),
                                        st\<lparr> teamList :=
                                              Some (appendRow data (buildTeamListRow p3)) \<rparr>))))))"

text \<open>Lines 717 to 725 and 833 to 845: the first data row whose UPID cell, as a trimmed
  string, is the trimmed id; the result is the sheet row number, counted from 1.\<close>

definition rowMatchesId :: "colmap \<Rightarrow> jsval list \<Rightarrow> string \<Rightarrow> bool" where
  "rowMatchesId colMap row i =
     (trim (toStr (cellAt colMap row ''Unique Personnel ID (UPID)'')) = trim i)"

fun findRowByUpid :: "colmap \<Rightarrow> string \<Rightarrow> nat \<Rightarrow> sheet \<Rightarrow> nat option" where
  "findRowByUpid colMap i k [] = None"
| "findRowByUpid colMap i k (row # rows) =
     (if rowMatchesId colMap row i then Some (k + 1) else findRowByUpid colMap i (Suc k) rows)"

definition fieldToHeader :: "string \<rightharpoonup> string" where
  "fieldToHeader = map_of
     [(''employeeCode'', ''Employee Code''),
      (''company'', ''Company''),
      (''contract'', ''Contract''),
      (''task'', ''Task''),
      (''primaryWorkstream'', ''Primary Workstream''),
      (''team'', ''Primary Workstream''),
      (''secondaryWorkstream'', ''Secondary Workstream''),
      (''firstName'', ''First Name''),
      (''lastName'', ''Last Name''),
      (''email'', ''Email''),
      (''title'', ''Primary Role''),
      (''primaryRole'', ''Primary Role''),
      (''secondaryRole'', ''Secondary Role''),
      (''secondaryRoles'', ''Secondary Role''),
      (''primaryRoleStartDate'', ''Primary Role Start Date''),
      (''cpc'', ''Contract Personnel Code (CPC)''),
      (''hid'', ''Heirarchy Identifier (HID)''),
      (''upid'', ''Unique Personnel ID (UPID)''),
      (''supervisorEmail'', ''Supervisor Email''),
      (''supervisorUpid'', ''Supervisor UPID''),
      (''reportsTo'', ''Supervisor UPID''),
      (''portfolioLeadership'', ''Portfolio Leadership?''),
      (''profilePicture'', ''Profile Picture''),
      (''eod'', ''EOD''),
      (''personnelContractStatus'', ''Personnel Contract Status''),
      (''departureDate'', ''Departure Date''),
      (''departureMeetingDate'', ''Departure Meeting Date''),
      (''contractLcat'', ''Contract LCAT''),
      (''location'', ''Location (City, ST)''),
      (''nodeType'', ''Node Type''),
      (''type'', ''Node Type''),
      (''activeInOrg'', ''Active In Org'')]"

text \<open>Lines 768 to 772: \<^verbatim>\<open>name\<close> is split into first and last name.\<close>

definition splitNameOnUpdate :: "jsobj \<Rightarrow> svcError + jsobj" where
  "splitNameOnUpdate updates =
     (if objGet updates ''name'' \<noteq> Undefined then
        (case objGet updates ''name'' of
           Str s \<Rightarrow> Inr (objSet (objSet updates ''firstName'' (Str (splitFirst s)))
                         ''lastName'' (Str (splitRest s)))
         | _ \<Rightarrow> Inl TypeError)
      else Inr updates)"

text \<open>Lines 775 to 780: a \<^verbatim>\<open>parentId\<close> becomes the supervisor only when it is not a
  structural id.\<close>

definition isStructuralId :: "string \<Rightarrow> bool" where
  "isStructuralId p = (startsWith p ''task:'' \<or> startsWith p ''team:'' \<or> p = ''root'')"

definition parentIdToSupervisor :: "jsobj \<Rightarrow> svcError + jsobj" where
  "parentIdToSupervisor updates =
     (if objGet updates ''parentId'' \<noteq> Undefined then
        (case objGet updates ''parentId'' of
           Str p \<Rightarrow>
             if \<not> isStructuralId p
             then Inr (objSet updates ''supervisorUpid'' (Str p))
             else Inr updates
         | _ \<Rightarrow> Inl TypeError)
      else Inr updates)"

text \<open>Lines 783 to 791: one turn of \<^verbatim>\<open>Object.keys(updates).forEach\<close>. For a field name
  that \<^verbatim>\<open>fieldToHeader\<close> only inherits (\<^verbatim>\<open>toString\<close>, say) the code reads a function or an
  object instead of a header; used as a key of \<^verbatim>\<open>colMap\<close> it stands for its printed text,
  which is taken not to be a header of the sheet, so that such a field is passed over like a
  field the map does not know.\<close>

definition writeField :: "colmap \<Rightarrow> nat \<Rightarrow> sheet \<Rightarrow> string \<times> jsval \<Rightarrow> sheet" where
  "writeField colMap rowIdx data fv =
     (case fieldToHeader (fst fv) of
        None \<Rightarrow> data
      | Some headerName \<Rightarrow>
          (case colMap headerName of
             None \<Rightarrow> data
           | Some c \<Rightarrow>
               setCell data rowIdx (c + 1)
                 (if snd fv = Null \<or> snd fv = Undefined then Str [] else snd fv)))"

definition updatePerson :: "store \<Rightarrow> string \<Rightarrow> jsobj \<Rightarrow> svcError + (apiResult \<times> store)" where
  "updatePerson st i updates =
     (if \<not> editPermitted st then Inl PermissionDenied
      else case teamList st of
             None \<Rightarrow> Inr (Failure (errorMessage SheetNotFound), st)
           | Some [] \<Rightarrow> Inr (Failure (errorMessage TypeError), st)
           | Some (headers # rows) \<Rightarrow>
               (let colMap = colMapOf headers
                in case findRowByUpid colMap i 1 rows of
                     None \<Rightarrow> Inr (Failure (''Person not found with UPID: '' @ i), st)
                   | Some rowIdx \<Rightarrow>
                       (case splitNameOnUpdate updates of
                          Inl e \<Rightarrow> Inr (Failure (errorMessage e), st)
                        | Inr u1 \<Rightarrow>
                            (case parentIdToSupervisor u1 of
                               Inl e \<Rightarrow> Inr (Failure (errorMessage e), st)
                             | Inr u2 \<Rightarrow>
                                 Inr (Success (Str i),
                                      st\<lparr> teamList :=
                                            Some (foldl (writeField colMap rowIdx)
                                                    (headers # rows) u2) \<rparr>)))))"

text \<open>\<^verbatim>\<open>TeamsCrudService.deleteVacantPosition\<close>: the first open vacancy of that id is
  closed, and an open vacancy list no longer shows it.\<close>

fun closeVacancy :: "string \<Rightarrow> vacancy list \<Rightarrow> vacancy list" where
  "closeVacancy i [] = []"
| "closeVacancy i (v # vs) = (if vacantId v = i then vs else v # closeVacancy i vs)"

definition deleteVacantPosition :: "store \<Rightarrow> string \<Rightarrow> apiResult \<times> store" where
  "deleteVacantPosition st i =
     (case find (\<lambda>v. vacantId v = i) (vacantPositions st) of
        None \<Rightarrow> (Failure (''Vacant position not found: '' @ i), st)
      | Some v \<Rightarrow> (Success Undefined,
                   st\<lparr> vacantPositions := closeVacancy i (vacantPositions st) \<rparr>))"

text \<open>\<^verbatim>\<open>deletePerson\<close>: a soft delete, the row stays with \<^verbatim>\<open>Active In Org = 'FALSE'\<close> and
  status \<^verbatim>\<open>'Departed'\<close>. A column that is missing gives the column number
  \<^verbatim>\<open>undefined + 1\<close>, which \<^verbatim>\<open>getRange\<close> refuses: the exception is caught.\<close>

definition deletePerson :: "store \<Rightarrow> string \<Rightarrow> svcError + (apiResult \<times> store)" where
  "deletePerson st i =
     (if \<not> editPermitted st then Inl PermissionDenied
      else if i \<noteq> [] \<and> startsWith i ''VAC-'' then Inr (deleteVacantPosition st i)
      else case teamList st of
             None \<Rightarrow> Inr (Failure (errorMessage SheetNotFound), st)
           | Some [] \<Rightarrow> Inr (Failure (errorMessage TypeError), st)
           | Some (headers # rows) \<Rightarrow>
               (let colMap = colMapOf headers
                in case findRowByUpid colMap i 1 rows of
                     None \<Rightarrow> Inr (Failure (''Person not found with UPID: '' @ i), st)
                   | Some rowIdx \<Rightarrow>
                       (case colMap ''Active In Org'' of
                          None \<Rightarrow> Inr (Failure (errorMessage TypeError), st)
                        | Some a \<Rightarrow>
                            (let d1 = setCell (headers # rows) rowIdx (a + 1) (Str ''FALSE'')
                             in case colMap ''Personnel Contract Status'' of
                                  None \<Rightarrow>
                                    Inr (Failure (errorMessage TypeError),
                                         st\<lparr> teamList := Some d1 \<rparr>)
                                | Some s \<Rightarrow>
                                    Inr (Success (Str i),
                                         st\<lparr> teamList :=
                                               Some (setCell d1 rowIdx (s + 1)
                                                       (Str ''Departed'')) \<rparr>)))))"

text \<open>The personnel records a read of the store yields, and the UPID index built from
  them; both are named here for the statements below.\<close>

definition personnelOf :: "store \<Rightarrow> personnel list" where
  "personnelOf st =
     (case teamList st of
        None \<Rightarrow> []
      | Some data \<Rightarrow> readTeamListRaw (cpcLevelMap st) data)"

definition upidIndex :: "store \<Rightarrow> (string \<rightharpoonup> personnel)" where
  "upidIndex st = buildUpidMap (personnelOf st)"

text \<open>No data row of the Team List answers to the id, under the comparison the write paths
  make; and the message a write then reports.\<close>

definition noRowMatches :: "store \<Rightarrow> string \<Rightarrow> bool" where
  "noRowMatches st i =
     (case teamList st of
        None \<Rightarrow> True
      | Some [] \<Rightarrow> True
      | Some (headers # rows) \<Rightarrow> list_all (\<lambda>row. \<not> rowMatchesId (colMapOf headers) row i) rows)"

definition notFoundMessage :: "store \<Rightarrow> string \<Rightarrow> string" where
  "notFoundMessage st i =
     (case teamList st of
        None \<Rightarrow> errorMessage SheetNotFound
      | Some [] \<Rightarrow> errorMessage TypeError
      | Some (headers # rows) \<Rightarrow> ''Person not found with UPID: '' @ i)"

section \<open>Scenarios\<close>

text \<open>Scenario E of the specification: a never-filled vacancy on \<^verbatim>\<open>TASK-003\<close> without a
  team, whose supervisor \<^verbatim>\<open>330-012\<close> is on the roster.\<close>

definition scenarioE_vacancy :: vacancy where
  "scenarioE_vacancy =
     \<lparr> vacantId = ''VAC-003-1'', vcontract = ''SQuAT'', vtask = ''TASK-003'',
       vteam = [], vsupervisorUpid = ''330-012'' \<rparr>"

definition scenarioE_store :: store where
  "scenarioE_store =
     \<lparr> teamList = Some [[Str ''Unique Personnel ID (UPID)'', Str ''Task''],
                        [Str ''330-012'', Str ''TASK-003'']],
       teamMappings = [],
       vacantPositions = [scenarioE_vacancy],
       cpcLevelMap = CPC_LEVEL_MAP,
       editPermitted = True \<rparr>"

text \<open>Scenario A of the specification: a lead on \<^verbatim>\<open>TASK-001\<close> whose workstream is the
  name of an active team of that task, and whose supervisor \<^verbatim>\<open>100-001\<close> is on the roster,
  on the same task.\<close>

definition scenarioA_teams :: "team list" where
  "scenarioA_teams =
     [\<lparr> tcontract = ''SQuAT'', ttask = ''TASK-001'',
         teamId = ''TEAM-001'', teamName = ''Program Management Team'', isActive = True \<rparr>]"

definition scenarioA_person :: personnel where
  "scenarioA_person =
     \<lparr> employeeCode = [], upid = ''310-003'', cpc = ''310'', hid = ''003'',
       supervisorUpid = ''100-001'', contract = ''SQuAT'', task = ''TASK-001'',
       primaryWorkstream = ''Program Management Team'', email = [],
       personnelContractStatus = ''Active'', nodeType = ''lead'',
       portfolioLeadership = False, activeInOrg = True, rowIndex = 3 \<rparr>"

definition scenarioA_supervisor :: personnel where
  "scenarioA_supervisor =
     \<lparr> employeeCode = [], upid = ''100-001'', cpc = ''100'', hid = ''001'',
       supervisorUpid = [], contract = ''SQuAT'', task = ''TASK-001'',
       primaryWorkstream = [], email = [],
       personnelContractStatus = ''Active'', nodeType = ''director'',
       portfolioLeadership = False, activeInOrg = True, rowIndex = 2 \<rparr>"

text \<open>A small roster: the columns the reader interprets, in the order of
  \<^verbatim>\<open>TEAM_LIST_HEADERS\<close>, a departed lead whose \<^verbatim>\<open>Active In Org\<close> cell is left open, an
  active analyst, and a person flagged as portfolio leadership whose \<^verbatim>\<open>Node Type\<close> cell is
  left open.\<close>

definition rosterHeaders :: "jsval list" where
  "rosterHeaders =
     [Str ''Contract'', Str ''Task'', Str ''Primary Workstream'', Str ''Email'',
      Str ''Contract Personnel Code (CPC)'', Str ''Heirarchy Identifier (HID)'',
      Str ''Unique Personnel ID (UPID)'', Str ''Supervisor UPID'', Str ''Portfolio Leadership?'',
      Str ''Personnel Contract Status'', Str ''Node Type'', Str ''Active In Org'']"

definition departedRow :: "jsval \<Rightarrow> jsval list" where
  "departedRow activeCell =
     [Str ''SQuAT'', Str ''TASK-001'', Str [], Str ''pat@example.org'', Num 310, Str ''003'',
      Str ''310-003'', Str [], Str [], Str ''Departed'', Str [], activeCell]"

definition activeRow :: "jsval list" where
  "activeRow =
     [Str ''SQuAT'', Str ''TASK-001'', Str [], Str ''sam@example.org'', Str ''410'', Str ''004'',
      Str ''410-004'', Str [], Str [], Str ''Active'', Str [], Bool True]"

definition leaderRow :: "jsval \<Rightarrow> jsval list" where
  "leaderRow typeCell =
     [Str ''SQuAT'', Str ''TASK-002'', Str [], Str ''kim@example.org'', Str ''410'', Str ''007'',
      Str ''410-007'', Str [], Bool True, Str ''Active'', typeCell, Bool True]"

definition rosterStore :: "jsval list list \<Rightarrow> store" where
  "rosterStore rows =
     \<lparr> teamList = Some (rosterHeaders # rows),
       teamMappings = [],
       vacantPositions = [],
       cpcLevelMap = CPC_LEVEL_MAP,
       editPermitted = True \<rparr>"

definition departedStore :: "jsval \<Rightarrow> store" where
  "departedStore activeCell = rosterStore [departedRow activeCell, activeRow]"

text \<open>Scenario A as a store: the director of the contract, the lead of Scenario A, and the
  team mapping. The task node hangs under the director, so the lead is four steps from the
  root.\<close>

definition treeStore :: store where
  "treeStore =
     (rosterStore
        [[Str ''SQuAT'', Str [], Str [], Str ''dir@example.org'', Str ''100'', Str ''001'',
          Str ''100-001'', Str [], Str [], Str ''Active'', Str [], Bool True],
         [Str ''SQuAT'', Str ''TASK-001'', Str ''Program Management Team'', Str ''lee@example.org'',
          Str ''310'', Str ''003'', Str ''310-003'', Str ''100-001'', Str [], Str ''Active'',
          Str [], Bool True]])
     \<lparr> teamMappings := scenarioA_teams \<rparr>"

text \<open>Two analysts of one task, each entered as the other's supervisor.\<close>

definition cycleStore :: store where
  "cycleStore =
     rosterStore
        [[Str ''SQuAT'', Str ''TASK-001'', Str [], Str ''ann@example.org'', Str ''410'', Str ''001'',
          Str ''410-001'', Str ''410-002'', Str [], Str ''Active'', Str [], Bool True],
         [Str ''SQuAT'', Str ''TASK-001'', Str [], Str ''bob@example.org'', Str ''410'', Str ''002'',
          Str ''410-002'', Str ''410-001'', Str [], Str ''Active'', Str [], Bool True]]"

text \<open>A never-filled vacancy that still names a team whose mapping has been
  deactivated.\<close>

definition danglingStore :: store where
  "danglingStore =
     (rosterStore [activeRow])
     \<lparr> teamMappings :=
         [\<lparr> tcontract = ''SQuAT'', ttask = ''TASK-001'',
            teamId = ''TEAM-009'', teamName = ''Retired Team'', isActive = False \<rparr>],
       vacantPositions :=
         [\<lparr> vacantId = ''VAC-001-1'', vcontract = ''SQuAT'', vtask = ''TASK-001'',
            vteam = ''TEAM-009'', vsupervisorUpid = [] \<rparr>] \<rparr>"



definition newAnalyst :: jsobj where
  "newAnalyst =
     [(''name'', Str ''New Analyst''), (''task'', Str ''TASK-001''),
      (''email'', Str ''new.analyst@example.org'')]"

text \<open>A roster for the lookup by email: the analyst; a second person entered under the same
  address in another spelling, with blanks around it; a person with another address; a person
  whose address differs by a blank inside it; and a person without an address.\<close>

definition emailStore :: store where
  "emailStore =
     rosterStore
       [activeRow,
        [Str ''SQuAT'', Str ''TASK-001'', Str [], Str '' Sam@Example.ORG  '', Str ''410'',
         Str ''005'', Str ''410-005'', Str [], Str [], Str ''Active'', Str [], Bool True],
        [Str ''SQuAT'', Str ''TASK-001'', Str [], Str ''pat@example.org'', Str ''410'',
         Str ''006'', Str ''410-006'', Str [], Str [], Str ''Active'', Str [], Bool True],
        [Str ''SQuAT'', Str ''TASK-001'', Str [], Str ''sam @example.org'', Str ''410'',
         Str ''007'', Str ''410-007'', Str [], Str [], Str ''Active'', Str [], Bool True],
        [Str ''SQuAT'', Str ''TASK-001'', Str [], Str [], Str ''410'',
         Str ''008'', Str ''410-008'', Str [], Str [], Str ''Active'', Str [], Bool True]]"



text \<open>A sheet with the full header row of \<^verbatim>\<open>TEAM_LIST_HEADERS\<close> and the active analyst;
  and the store \<^verbatim>\<open>addPerson\<close> leaves when the new analyst is added to it.\<close>

definition fullSheetStore :: store where
  "fullSheetStore =
     (rosterStore [])
     \<lparr> teamList := Some
         [map Str TEAM_LIST_HEADERS,
          [Str ''E-17'', Str ''Acme'', Str ''SQuAT'', Str ''TASK-001'', Str [], Str [],
           Str ''Sam'', Str ''Stone'', Str ''sam@example.org'', Str ''Analyst'', Str [], Str [],
           Str ''410'', Str ''004'', Str ''410-004'', Str [], Str [], Str [], Str [], Str [],
           Str ''Active'', Str [], Str [], Str [], Str [], Str [], Str [], Bool True]] \<rparr>"

definition afterFirstAdd :: store where
  "afterFirstAdd =
     (case addPerson fullSheetStore newAnalyst of
        Some (Inr (r, st1)) \<Rightarrow> st1
      | _ \<Rightarrow> fullSheetStore)"

text \<open>Scenario A with an analyst of the same task who has no workstream and names the lead as
  supervisor: rule 2b places the analyst under the lead.\<close>

definition chainStore :: store where
  "chainStore =
     (rosterStore
        [[Str ''SQuAT'', Str [], Str [], Str ''dir@example.org'', Str ''100'', Str ''001'',
          Str ''100-001'', Str [], Str [], Str ''Active'', Str [], Bool True],
         [Str ''SQuAT'', Str ''TASK-001'', Str ''Program Management Team'', Str ''lee@example.org'',
          Str ''310'', Str ''003'', Str ''310-003'', Str ''100-001'', Str [], Str ''Active'',
          Str [], Bool True],
         [Str ''SQuAT'', Str ''TASK-001'', Str [], Str ''max@example.org'',
          Str ''410'', Str ''008'', Str ''410-008'', Str ''310-003'', Str [], Str ''Active'',
          Str [], Bool True]])
     \<lparr> teamMappings := scenarioA_teams \<rparr>"

text \<open>Three stores outside the reach of the bound on parent chains: a team mapping without a
  task, a row without UPID whose email is spelled like the director's UPID, and a mapping
  whose contract is spelled \<^verbatim>\<open>toString\<close>.\<close>

definition inheritedContractStore :: store where
  "inheritedContractStore =
     (rosterStore [activeRow])
     \<lparr> teamMappings :=
         [\<lparr> tcontract = ''toString'', ttask = ''TASK-001'',
            teamId = ''TEAM-001'', teamName = ''Program Management Team'', isActive = True \<rparr>] \<rparr>"

definition tasklessTeamStore :: store where
  "tasklessTeamStore =
     (rosterStore [activeRow])
     \<lparr> teamMappings :=
         [\<lparr> tcontract = ''SQuAT'', ttask = [],
            teamId = ''TEAM-002'', teamName = ''Quality Team'', isActive = True \<rparr>] \<rparr>"

definition sharedIdStore :: store where
  "sharedIdStore =
     (rosterStore
        [[Str ''SQuAT'', Str ''TASK-001'', Str [], Str ''100-001'', Str ''410'', Str [],
          Str [], Str [], Str [], Str ''Active'', Str [], Bool True],
         [Str ''SQuAT'', Str [], Str [], Str ''dir@example.org'', Str ''100'', Str ''001'',
          Str ''100-001'', Str [], Str [], Str ''Active'', Str [], Bool True]])
     \<lparr> teamMappings := scenarioA_teams \<rparr>"

section \<open>Properties of the tree assembler\<close>

lemma buildUpidMap_foldl_dom:
  "dom (foldl (\<lambda>m p. if upid p \<noteq> [] then m(upid p \<mapsto> p) else m) m0 ps)
     = dom m0 \<union> {u. u \<noteq> [] \<and> u \<in> upid ` set ps}"
  by (induction ps arbitrary: m0) auto

lemma dom_buildUpidMap: "dom (buildUpidMap ps) = {u. u \<noteq> [] \<and> u \<in> upid ` set ps}"
  by (simp add: buildUpidMap_def buildUpidMap_foldl_dom)

lemma empty_not_in_upidIndex: "buildUpidMap ps [] = None"
  using dom_buildUpidMap[of ps] by (auto simp: dom_def)

lemma getAllData_try_nodes:
  "getAllData_try st = Inr nodes \<Longrightarrow>
   nodes = assemble (teamMappings st) (vacantPositions st) (personnelOf st)"
  by (auto simp: getAllData_try_def personnelOf_def split: option.splits)

subsection \<open>Never-filled vacancies\<close>

lemma vacancyParent_cascade:
  "[] \<notin> dom upidMap \<Longrightarrow>
   vacancyParent v upidMap =
     (if vsupervisorUpid v \<in> dom upidMap then vsupervisorUpid v
      else if vteam v \<noteq> [] then ''team:'' @ vteam v
      else if vtask v \<noteq> [] then ''task:'' @ vtask v
      else ''root'')"
  by (auto simp: vacancyParent_def vacancyFallback_def orNull_def ID_PREFIX_TEAM_def
        ID_PREFIX_TASK_def ID_ROOT_def dom_def)

text \<open>
  C5 (never-filled vacancy parent cascade). Whenever \<^verbatim>\<open>getAllData\<close> succeeds, every record
  \<open>v\<close> of the vacant-positions collection has its node in the result, and the parent of that
  node is \<^verbatim>\<open>v.supervisorUpid\<close> when the UPID index holds that UPID; otherwise
  \<^verbatim>\<open>'team:' + v.team\<close> when the team is not empty; otherwise \<^verbatim>\<open>'task:' + v.task\<close> when the
  task is not empty; otherwise \<^verbatim>\<open>'root'\<close>.
\<close>

theorem vacancy_parent_cascade:
  assumes "getAllData_try st = Inr nodes" and "v \<in> set (vacantPositions st)"
  shows "vacantNode v (upidIndex st) \<in> set nodes \<and>
         parentId (vacantNode v (upidIndex st)) =
           IdRef (if upidIndex st (vsupervisorUpid v) \<noteq> None then vsupervisorUpid v
                 else if vteam v \<noteq> [] then ''team:'' @ vteam v
                 else if vtask v \<noteq> [] then ''task:'' @ vtask v
                 else ''root'')"
proof -
  have nodes: "nodes = assemble (teamMappings st) (vacantPositions st) (personnelOf st)"
    using assms(1) by (rule getAllData_try_nodes)
  have "vacantNode v (upidIndex st) \<in> set (vacantNodesOf (vacantPositions st) (personnelOf st))"
    using assms(2) by (simp add: vacantNodesOf_def upidIndex_def)
  then have mem: "vacantNode v (upidIndex st) \<in> set nodes"
    by (simp add: nodes assemble_def)
  have "[] \<notin> dom (upidIndex st)"
    by (simp add: upidIndex_def dom_def empty_not_in_upidIndex)
  then have "vacancyParent v (upidIndex st) =
      (if upidIndex st (vsupervisorUpid v) \<noteq> None then vsupervisorUpid v
       else if vteam v \<noteq> [] then ''team:'' @ vteam v
       else if vtask v \<noteq> [] then ''task:'' @ vtask v
       else ''root'')"
    by (simp add: vacancyParent_cascade dom_def)
  then show ?thesis using mem by (simp add: vacantNode_def)
qed

text \<open>Scenario E: the supervisor \<^verbatim>\<open>330-012\<close> is on the roster, and the vacancy hangs under
  it.\<close>

theorem vacancy_parent_cascade_scenarioE:
  "getAllData_try scenarioE_store = Inr (getAllData scenarioE_store) \<and>
   scenarioE_vacancy \<in> set (vacantPositions scenarioE_store) \<and>
   upidIndex scenarioE_store ''330-012'' \<noteq> None \<and>
   vacantNode scenarioE_vacancy (upidIndex scenarioE_store) \<in> set (getAllData scenarioE_store) \<and>
   parentId (vacantNode scenarioE_vacancy (upidIndex scenarioE_store)) = IdRef ''330-012''"
proof -
  have h1: "getAllData_try scenarioE_store = Inr (getAllData scenarioE_store)" by code_simp
  have h2: "scenarioE_vacancy \<in> set (vacantPositions scenarioE_store)" by code_simp
  have h3: "upidIndex scenarioE_store ''330-012'' \<noteq> None" by code_simp
  have s: "vsupervisorUpid scenarioE_vacancy = ''330-012''" by code_simp
  show ?thesis using h1 h2 h3 s vacancy_parent_cascade[OF h1 h2] by simp
qed

subsection \<open>Team match before supervisor\<close>

lemma teamNode_id_mem:
  "t \<in> set teams \<Longrightarrow> teamId t \<noteq> [] \<Longrightarrow> isActive t \<Longrightarrow>
   ID_PREFIX_TEAM @ teamId t \<in> set (map nid (teamNodesOf teams))"
  by (force simp: teamNodesOf_def mkTeamNode_def)

text \<open>
  C4 (team-match precedence in the person cascade). A record that is neither director nor
  deputy, has a task and a workstream, and whose workstream is the name of an active team
  mapping of the same task, is placed under \<^verbatim>\<open>'team:' + teamId\<close> of such a mapping (the one
  \<^verbatim>\<open>find\<close> returns, the first in the order of \<^verbatim>\<open>getAllTeams()\<close>), whatever the UPID index
  holds for its supervisor. The mappings meant are teams, that is, they carry a team id; the
  set of team node ids is the one \<^verbatim>\<open>getAllData\<close> passes, built from the same mappings.
\<close>

theorem team_match_precedence:
  assumes "nodeType person \<noteq> ''director''" and "nodeType person \<noteq> ''deputy''"
    and "task person \<noteq> []" and "primaryWorkstream person \<noteq> []"
    and "\<exists>t \<in> set teams. teamMatches person t"
    and "\<forall>t \<in> set teams. teamMatches person t \<longrightarrow> teamId t \<noteq> []"
  shows "\<exists>t \<in> set teams. teamMatches person t \<and> findTeam teams person = Some t \<and>
           resolveParentId teams person upidMap teamToTask
             (set (map nid (teamNodesOf teams))) taskNodeIds = ''team:'' @ teamId t"
proof -
  from assms(5) obtain t0 where f: "findTeam teams person = Some t0"
    by (cases "findTeam teams person") (auto simp: findTeam_def find_None_iff)
  then have m: "teamMatches person t0" and mem: "t0 \<in> set teams"
    by (auto simp: findTeam_def find_Some_iff)
  with assms(6) have tid: "teamId t0 \<noteq> []" by blast
  have "ID_PREFIX_TEAM @ teamId t0 \<in> set (map nid (teamNodesOf teams))"
    using mem tid m by (intro teamNode_id_mem) (auto simp: teamMatches_def)
  then have "teamRule teams person (set (map nid (teamNodesOf teams)))
               = Some (ID_PREFIX_TEAM @ teamId t0)"
    using f tid assms(4) by (simp add: teamRule_def)
  then have "resolveParentId teams person upidMap teamToTask
               (set (map nid (teamNodesOf teams))) taskNodeIds = ''team:'' @ teamId t0"
    using assms(1-3) by (simp add: resolveParentId_def ID_PREFIX_TEAM_def)
  with m mem f show ?thesis by blast
qed

text \<open>Scenario A: rule 2b would answer \<^verbatim>\<open>100-001\<close>, and rule 2a fires before it.\<close>

theorem team_match_precedence_scenarioA:
  "sameTaskSupervisorRule scenarioA_person
      (buildUpidMap [scenarioA_supervisor, scenarioA_person]) = Some ''100-001'' \<and>
   resolveParentId scenarioA_teams scenarioA_person
      (buildUpidMap [scenarioA_supervisor, scenarioA_person]) (buildTeamToTask scenarioA_teams)
      (set (map nid (teamNodesOf scenarioA_teams)))
      (set (map nid (taskNodesOf scenarioA_teams [scenarioA_supervisor, scenarioA_person])))
     = ''team:TEAM-001''"
proof -
  have h1: "nodeType scenarioA_person \<noteq> ''director''" by code_simp
  have h2: "nodeType scenarioA_person \<noteq> ''deputy''" by code_simp
  have h3: "task scenarioA_person \<noteq> []" by code_simp
  have h4: "primaryWorkstream scenarioA_person \<noteq> []" by code_simp
  have h5: "\<exists>t \<in> set scenarioA_teams. teamMatches scenarioA_person t" by code_simp
  have h6: "\<forall>t \<in> set scenarioA_teams. teamMatches scenarioA_person t \<longrightarrow> teamId t \<noteq> []"
    by code_simp
  have s: "sameTaskSupervisorRule scenarioA_person
      (buildUpidMap [scenarioA_supervisor, scenarioA_person]) = Some ''100-001''" by code_simp
  have t: "\<forall>t \<in> set scenarioA_teams. teamId t = ''TEAM-001''" by code_simp
  from team_match_precedence[OF h1 h2 h3 h4 h5 h6] t s show ?thesis by auto
qed

subsection \<open>Departed personnel\<close>

lemma readRows_append:
  "readRows cpcMap colMap i (xs @ ys)
     = readRows cpcMap colMap i xs @ readRows cpcMap colMap (i + length xs) ys"
  by (induction xs arbitrary: i) (auto split: option.splits)

lemma readRow_departed:
  assumes "trim (strOr (cellAt colMap row ''Personnel Contract Status'')) = ''Departed''"
    and "truthy (cellAt colMap row ''Unique Personnel ID (UPID)'') \<or> truthy (cellAt colMap row ''Email'')"
  shows "if isExplicitFalse (cellAt colMap row ''Active In Org'')
         then readRow cpcMap colMap i row = None
         else \<exists>p. readRow cpcMap colMap i row = Some p \<and> nodeType p = ''vacant''"
  using assms by (auto simp: readRow_def Let_def)

lemma personnelOf_split:
  "teamList st = Some (headers # pre @ row # post) \<Longrightarrow>
   personnelOf st =
     readRows (cpcLevelMap st) (colMapOf headers) 1 pre
     @ (case readRow (cpcLevelMap st) (colMapOf headers) (Suc (length pre)) row of
          None \<Rightarrow> [] | Some p \<Rightarrow> [p])
     @ readRows (cpcLevelMap st) (colMapOf headers) (Suc (Suc (length pre))) post"
  by (simp add: personnelOf_def readTeamListRaw_def readRows_append split: option.splits)

lemma getAllData_assemble:
  "teamList st = Some data \<Longrightarrow>
   getAllData st = assemble (teamMappings st) (vacantPositions st) (personnelOf st)"
  by (simp add: getAllData_def getAllData_try_def personnelOf_def)

lemma person_node_in_result:
  "teamList st = Some data \<Longrightarrow> p \<in> set (personnelOf st) \<Longrightarrow>
   resolvedPersonNode (teamMappings st) (personnelOf st) p \<in> set (getAllData st)"
  by (simp add: getAllData_assemble assemble_def personNodesOf_def)

text \<open>
  C3 (vacancy classification). For a row of the Team List that carries a UPID or an email
  (the reader skips any other row as blank) and whose status reads \<^verbatim>\<open>Departed\<close>: when
  \<^verbatim>\<open>Active In Org\<close> is \<^verbatim>\<open>false\<close> (or one of the texts \<^verbatim>\<open>FALSE\<close>, \<^verbatim>\<open>false\<close>) the row yields
  no record, and the result of \<^verbatim>\<open>getAllData\<close> is assembled from the records of the other
  rows alone; for any other value, \<^verbatim>\<open>true\<close> among them, the row's record is in the result as
  a node of type \<^verbatim>\<open>vacant\<close>, whatever its CPC or \<^verbatim>\<open>Node Type\<close> cell say.
\<close>

theorem vacancy_classification:
  assumes "teamList st = Some (headers # pre @ row # post)"
    and "trim (strOr (cellAt (colMapOf headers) row ''Personnel Contract Status'')) = ''Departed''"
    and "truthy (cellAt (colMapOf headers) row ''Unique Personnel ID (UPID)'')
         \<or> truthy (cellAt (colMapOf headers) row ''Email'')"
  shows "if isExplicitFalse (cellAt (colMapOf headers) row ''Active In Org'')
         then readRow (cpcLevelMap st) (colMapOf headers) (Suc (length pre)) row = None \<and>
              getAllData st =
                assemble (teamMappings st) (vacantPositions st)
                  (readRows (cpcLevelMap st) (colMapOf headers) 1 pre
                   @ readRows (cpcLevelMap st) (colMapOf headers) (Suc (Suc (length pre))) post)
         else \<exists>p. readRow (cpcLevelMap st) (colMapOf headers) (Suc (length pre)) row = Some p \<and>
                  resolvedPersonNode (teamMappings st) (personnelOf st) p \<in> set (getAllData st) \<and>
                  ntype (resolvedPersonNode (teamMappings st) (personnelOf st) p) = ''vacant''"
proof (cases "isExplicitFalse (cellAt (colMapOf headers) row ''Active In Org'')")
  case True
  with readRow_departed[OF assms(2,3), of "cpcLevelMap st" "Suc (length pre)"]
  have none: "readRow (cpcLevelMap st) (colMapOf headers) (Suc (length pre)) row = None"
    by simp
  with personnelOf_split[OF assms(1)] getAllData_assemble[OF assms(1)] True
  show ?thesis by simp
next
  case False
  with readRow_departed[OF assms(2,3), of "cpcLevelMap st" "Suc (length pre)"]
  obtain p where p: "readRow (cpcLevelMap st) (colMapOf headers) (Suc (length pre)) row = Some p"
    and v: "nodeType p = ''vacant''" by auto
  have "p \<in> set (personnelOf st)"
    using personnelOf_split[OF assms(1)] p by simp
  then have "resolvedPersonNode (teamMappings st) (personnelOf st) p \<in> set (getAllData st)"
    by (rule person_node_in_result[OF assms(1)])
  moreover have "ntype (resolvedPersonNode (teamMappings st) (personnelOf st) p) = ''vacant''"
    using v by (simp add: resolvedPersonNode_def personNode_def)
  ultimately show ?thesis using False p by auto
qed


text \<open>The departed lead of the small roster, with the cell \<^verbatim>\<open>true\<close> and with the cell
  \<^verbatim>\<open>false\<close>.\<close>

theorem vacancy_classification_witness:
  "(\<exists>p. readRow (cpcLevelMap (departedStore (Bool True))) (colMapOf rosterHeaders) (Suc 0)
          (departedRow (Bool True)) = Some p \<and>
        resolvedPersonNode (teamMappings (departedStore (Bool True)))
          (personnelOf (departedStore (Bool True))) p \<in> set (getAllData (departedStore (Bool True))) \<and>
        ntype (resolvedPersonNode (teamMappings (departedStore (Bool True)))
          (personnelOf (departedStore (Bool True))) p) = ''vacant'') \<and>
   map (\<lambda>n. (nid n, ntype n)) (getAllData (departedStore (Bool True)))
     = [(''root'', ''hidden''), (''task:TASK-001'', ''task''), (''310-003'', ''vacant''),
        (''410-004'', ''person'')] \<and>
   map (\<lambda>n. (nid n, ntype n)) (getAllData (departedStore (Bool False)))
     = [(''root'', ''hidden''), (''task:TASK-001'', ''task''), (''410-004'', ''person'')]"
proof -
  have h1: "teamList (departedStore (Bool True))
              = Some (rosterHeaders # [] @ departedRow (Bool True) # [activeRow])"
    by code_simp
  have h2: "trim (strOr (cellAt (colMapOf rosterHeaders) (departedRow (Bool True))
              ''Personnel Contract Status'')) = ''Departed''"
    by code_simp
  have h3: "truthy (cellAt (colMapOf rosterHeaders) (departedRow (Bool True))
              ''Unique Personnel ID (UPID)'')
            \<or> truthy (cellAt (colMapOf rosterHeaders) (departedRow (Bool True)) ''Email'')"
    by code_simp
  have nf: "\<not> isExplicitFalse (cellAt (colMapOf rosterHeaders) (departedRow (Bool True))
              ''Active In Org'')"
    by code_simp
  have e1: "map (\<lambda>n. (nid n, ntype n)) (getAllData (departedStore (Bool True)))
     = [(''root'', ''hidden''), (''task:TASK-001'', ''task''), (''310-003'', ''vacant''),
        (''410-004'', ''person'')]"
    by code_simp
  have e2: "map (\<lambda>n. (nid n, ntype n)) (getAllData (departedStore (Bool False)))
     = [(''root'', ''hidden''), (''task:TASK-001'', ''task''), (''410-004'', ''person'')]"
    by code_simp
  from vacancy_classification[OF h1 h2 h3] nf e1 e2 show ?thesis by simp
qed

subsection \<open>Leadership flag\<close>

text \<open>
  C6 (leadership override), as the reader implements it. For a row that yields a record and
  is not departed, with the leadership flag set (\<^verbatim>\<open>true\<close>, \<^verbatim>\<open>'TRUE'\<close> or \<^verbatim>\<open>'Yes'\<close>): when the
  \<^verbatim>\<open>Node Type\<close> cell is empty, a CPC-derived (or defaulted) type \<^verbatim>\<open>person\<close> becomes
  \<^verbatim>\<open>director\<close> and any other derived type is kept; when the cell is not empty, the record
  keeps that explicit type, trimmed and lower-cased, \<^verbatim>\<open>person\<close> included.
\<close>

theorem leadership_override:
  assumes "readRow cpcMap colMap i row = Some p"
    and "trim (strOr (cellAt colMap row ''Personnel Contract Status'')) \<noteq> ''Departed''"
    and "isLeadershipFlag (cellAt colMap row ''Portfolio Leadership?'')"
  shows "nodeType p =
           (if explicitNodeType colMap row = [] then
              (if cpcLevelType cpcMap (strOr (cellAt colMap row ''Contract Personnel Code (CPC)''))
                    = ''person''
               then ''director''
               else cpcLevelType cpcMap
                      (strOr (cellAt colMap row ''Contract Personnel Code (CPC)'')))
            else explicitNodeType colMap row)"
  using assms
  by (auto simp: readRow_def deriveNodeType_def Let_def split: if_splits)

text \<open>
  C6 as the specification states it covers a type that comes from the explicit
  \<^verbatim>\<open>Node Type\<close> cell. The override sits inside the branch taken for an empty cell (lines 180
  to 195): a row with \<^verbatim>\<open>Node Type = 'person'\<close> and the flag set stays \<^verbatim>\<open>person\<close>.
\<close>

theorem leadership_override_counterexample:
  "readRow CPC_LEVEL_MAP (colMapOf rosterHeaders) 1 (leaderRow (Str ''person'')) \<noteq> None \<and>
   explicitNodeType (colMapOf rosterHeaders) (leaderRow (Str ''person'')) = ''person'' \<and>
   isLeadershipFlag
     (cellAt (colMapOf rosterHeaders) (leaderRow (Str ''person'')) ''Portfolio Leadership?'') \<and>
   trim (strOr (cellAt (colMapOf rosterHeaders) (leaderRow (Str ''person''))
     ''Personnel Contract Status'')) \<noteq> ''Departed'' \<and>
   map nodeType (readTeamListRaw CPC_LEVEL_MAP [rosterHeaders, leaderRow (Str ''person'')])
     = [''person''] \<and>
   map (\<lambda>n. (nid n, ntype n)) (getAllData (rosterStore [leaderRow (Str ''person'')]))
     = [(''root'', ''hidden''), (''task:TASK-002'', ''task''), (''410-007'', ''person'')]"
  by code_simp

text \<open>The same row with an empty \<^verbatim>\<open>Node Type\<close> cell is promoted.\<close>

theorem leadership_override_witness:
  "readRow CPC_LEVEL_MAP (colMapOf rosterHeaders) 1 (leaderRow (Str []))
     = Some (hd (readTeamListRaw CPC_LEVEL_MAP [rosterHeaders, leaderRow (Str [])])) \<and>
   nodeType (hd (readTeamListRaw CPC_LEVEL_MAP [rosterHeaders, leaderRow (Str [])])) = ''director''"
proof -
  have h1: "readRow CPC_LEVEL_MAP (colMapOf rosterHeaders) 1 (leaderRow (Str []))
     = Some (hd (readTeamListRaw CPC_LEVEL_MAP [rosterHeaders, leaderRow (Str [])]))"
    by code_simp
  have h2: "trim (strOr (cellAt (colMapOf rosterHeaders) (leaderRow (Str []))
     ''Personnel Contract Status'')) \<noteq> ''Departed''"
    by code_simp
  have h3: "isLeadershipFlag
     (cellAt (colMapOf rosterHeaders) (leaderRow (Str [])) ''Portfolio Leadership?'')"
    by code_simp
  have e: "explicitNodeType (colMapOf rosterHeaders) (leaderRow (Str [])) = []"
    by code_simp
  have c: "cpcLevelType CPC_LEVEL_MAP
             (strOr (cellAt (colMapOf rosterHeaders) (leaderRow (Str []))
                ''Contract Personnel Code (CPC)'')) = ''person''"
    by code_simp
  from leadership_override[OF h1 h2 h3] e c h1 show ?thesis by simp
qed

subsection \<open>Following parent pointers\<close>

lemma find_distinct_id:
  "distinct (map nid ns) \<Longrightarrow> n \<in> set ns \<Longrightarrow> find (\<lambda>m. nid m = nid n) ns = Some n"
  by (induction ns) (auto simp: image_iff)

lemma climbs_via:
  "parentId n = IdRef p \<Longrightarrow> find (\<lambda>m. nid m = p) ns = Some m \<Longrightarrow> climbs k ns m \<Longrightarrow>
   climbs (Suc k) ns n"
  by simp

lemma climbs_Suc: "climbs k ns n \<Longrightarrow> climbs (Suc k) ns n"
proof (induction k arbitrary: n)
  case 0
  then show ?case by simp
next
  case (Suc k)
  show ?case
  proof (cases "isRoot n")
    case True
    then show ?thesis by simp
  next
    case False
    with Suc.prems obtain p m where pm: "parentId n = IdRef p"
      "find (\<lambda>m. nid m = p) ns = Some m" "climbs k ns m"
      by (auto split: option.splits parentRef.splits)
    from Suc.IH[OF pm(3)] have "climbs (Suc k) ns m" .
    with pm(1,2) show ?thesis by (rule climbs_via)
  qed
qed

lemma climbs_mono: "k \<le> k' \<Longrightarrow> climbs k ns n \<Longrightarrow> climbs k' ns n"
proof (induction k')
  case 0
  then show ?case by simp
next
  case (Suc k')
  show ?case
  proof (cases "k = Suc k'")
    case True
    with Suc.prems show ?thesis by simp
  next
    case False
    with Suc.prems have "k \<le> k'" by simp
    from Suc.IH[OF this Suc.prems(2)] show ?thesis by (rule climbs_Suc)
  qed
qed

lemma climbs_step:
  "parentId n = IdRef (nid m) \<Longrightarrow> distinct (map nid ns) \<Longrightarrow> m \<in> set ns \<Longrightarrow>
   climbs k ns m \<Longrightarrow> climbs (Suc k) ns n"
  by (simp add: find_distinct_id)

lemma isRoot_rootNode: "isRoot rootNode"
  by (simp add: isRoot_def rootNode_def)

lemma rootNode_in_assemble: "rootNode \<in> set (assemble teams vs ps)"
  by (simp add: assemble_def)

lemma nid_rootNode: "nid rootNode = ID_ROOT"
  by (simp add: rootNode_def)

lemma directorStep_Some:
  "directorStep m p c = Some u \<Longrightarrow>
   m c = Some u \<or> (nodeType p = ''director'' \<and> upid p = u \<and> u \<noteq> [])"
  unfolding directorStep_def propSet_def
  by (cases "contract p = c") (simp_all split: if_splits)

lemma contractDirectors_foldl:
  "foldl directorStep m0 ps c = Some u \<Longrightarrow>
   m0 c = Some u \<or> (\<exists>p \<in> set ps. nodeType p = ''director'' \<and> upid p = u \<and> u \<noteq> [])"
proof (induction ps arbitrary: m0)
  case Nil
  then show ?case by simp
next
  case (Cons p ps)
  from Cons.prems have "foldl directorStep (directorStep m0 p) ps c = Some u" by simp
  from Cons.IH[OF this] show ?case
  proof
    assume "directorStep m0 p c = Some u"
    from directorStep_Some[OF this] show ?thesis by auto
  next
    assume "\<exists>p \<in> set ps. nodeType p = ''director'' \<and> upid p = u \<and> u \<noteq> []"
    then show ?thesis by auto
  qed
qed

lemma contractDirectors_Some:
  "buildContractDirectors ps c = Some u \<Longrightarrow>
   \<exists>p \<in> set ps. nodeType p = ''director'' \<and> upid p = u \<and> u \<noteq> []"
proof -
  assume a: "buildContractDirectors ps c = Some u"
  from a have "foldl directorStep Map.empty ps c = Some u"
    by (simp add: buildContractDirectors_def)
  from contractDirectors_foldl[OF this] show ?thesis by simp
qed

text \<open>The parent of a task node is the root, the UPID of a director of the roster, or the
  inherited member.\<close>

lemma taskNode_parent:
  assumes "x = mkTaskNode tm (buildContractDirectors ps) tid"
  shows "parentId x = IdRef ID_ROOT \<or> parentId x = InheritedRef \<or>
         (\<exists>p \<in> set ps. nodeType p = ''director'' \<and> upid p \<noteq> [] \<and> parentId x = IdRef (upid p))"
proof -
  define c where "c = contractOfTask tm tid"
  have px: "parentId x =
      (case propGet (buildContractDirectors ps) c of
         Own u \<Rightarrow> if u = [] then IdRef ID_ROOT else IdRef u
       | Inherited \<Rightarrow> InheritedRef
       | Missing \<Rightarrow> IdRef ID_ROOT)"
    by (simp add: assms mkTaskNode_def c_def Let_def split: propRead.splits)
  show ?thesis
  proof (cases "buildContractDirectors ps c")
    case None
    then have "propGet (buildContractDirectors ps) c = Inherited
               \<or> propGet (buildContractDirectors ps) c = Missing"
      by (simp add: propGet_def)
    with px show ?thesis by auto
  next
    case (Some u)
    then obtain p where p: "p \<in> set ps" "nodeType p = ''director''" "upid p = u" "u \<noteq> []"
      using contractDirectors_Some by blast
    from Some have "propGet (buildContractDirectors ps) c = Own u"
      by (simp add: propGet_def)
    with px p(4) have "parentId x = IdRef u" by simp
    with p show ?thesis by blast
  qed
qed

lemma director_node:
  assumes "p \<in> set ps" and "nodeType p = ''director''" and "upid p \<noteq> []"
  shows "resolvedPersonNode teams ps p \<in> set (assemble teams vs ps)"
    and "nid (resolvedPersonNode teams ps p) = upid p"
    and "parentId (resolvedPersonNode teams ps p) = IdRef (nid rootNode)"
  using assms
  by (auto simp: assemble_def personNodesOf_def resolvedPersonNode_def personNode_def
        personId_def resolveParentId_def rootNode_def)

lemma climbs_director:
  assumes "distinct (map nid (assemble teams vs ps))"
    and "p \<in> set ps" and "nodeType p = ''director''" and "upid p \<noteq> []"
  shows "climbs 1 (assemble teams vs ps) (resolvedPersonNode teams ps p)"
proof -
  have "climbs (Suc 0) (assemble teams vs ps) (resolvedPersonNode teams ps p)"
    using director_node(3)[OF assms(2-4)] assms(1) rootNode_in_assemble
    by (rule climbs_step) (simp add: isRoot_rootNode)
  then show ?thesis by simp
qed

lemma climbs_taskNode:
  assumes d: "distinct (map nid (assemble teams vs ps))"
    and x: "x \<in> set (taskNodesOf teams ps)"
    and ni: "parentId x \<noteq> InheritedRef"
  shows "climbs 2 (assemble teams vs ps) x"
proof -
  from x obtain tid where xd: "x = mkTaskNode (getTaskMetadata teams) (buildContractDirectors ps) tid"
    by (auto simp: taskNodesOf_def)
  from taskNode_parent[OF xd] ni consider
    "parentId x = IdRef ID_ROOT"
    | p where "p \<in> set ps" "nodeType p = ''director''" "upid p \<noteq> []" "parentId x = IdRef (upid p)"
    by blast
  then show ?thesis
  proof cases
    case 1
    then have "parentId x = IdRef (nid rootNode)" by (simp add: nid_rootNode)
    then have "climbs (Suc 0) (assemble teams vs ps) x"
      using d rootNode_in_assemble by (rule climbs_step) (simp add: isRoot_rootNode)
    then show ?thesis by (rule climbs_mono[rotated]) simp
  next
    case 2
    then have par: "parentId x = IdRef (nid (resolvedPersonNode teams ps p))"
      using director_node(2)[of p ps teams] by simp
    have "climbs (Suc 1) (assemble teams vs ps) x"
      using par d
    proof (rule climbs_step)
      show "resolvedPersonNode teams ps p \<in> set (assemble teams vs ps)"
        using 2 by (intro director_node(1)) auto
      show "climbs 1 (assemble teams vs ps) (resolvedPersonNode teams ps p)"
        using d 2 by (intro climbs_director) auto
    qed
    then show ?thesis by (simp add: numeral_2_eq_2)
  qed
qed

lemma setAdd_foldl:
  "set (foldl (\<lambda>acc x. if P x then setAdd acc (f x) else acc) acc0 xs)
     = set acc0 \<union> {f x | x. x \<in> set xs \<and> P x}"
  by (induction xs arbitrary: acc0) (auto simp: setAdd_def)

lemma set_collectTaskIds:
  "set (collectTaskIds teams ps)
     = {ttask t | t. t \<in> set teams \<and> ttask t \<noteq> [] \<and> isActive t}
       \<union> {task p | p. p \<in> set ps \<and> task p \<noteq> []}"
  unfolding collectTaskIds_def
  by (simp add: setAdd_foldl[where P="\<lambda>p. task p \<noteq> []" and f=task]
        setAdd_foldl[where P="\<lambda>t. ttask t \<noteq> [] \<and> isActive t" and f=ttask])

lemma nid_mkTaskNode: "nid (mkTaskNode tm dirs tid) = ID_PREFIX_TASK @ tid"
  by (simp add: mkTaskNode_def Let_def)

lemma climbs_teamNode:
  assumes d: "distinct (map nid (assemble teams vs ps))"
    and tasks: "\<forall>t \<in> set teams. teamId t \<noteq> [] \<and> isActive t \<longrightarrow> ttask t \<noteq> []"
    and ni: "\<forall>m \<in> set (assemble teams vs ps). parentId m \<noteq> InheritedRef"
    and x: "x \<in> set (teamNodesOf teams)"
  shows "climbs 3 (assemble teams vs ps) x"
proof -
  from x obtain t where t: "t \<in> set teams" "teamId t \<noteq> []" "isActive t" "x = mkTeamNode t"
    by (auto simp: teamNodesOf_def)
  with tasks have "ttask t \<noteq> []" by blast
  with t have "ttask t \<in> set (collectTaskIds teams ps)"
    by (auto simp: set_collectTaskIds)
  then have m: "mkTaskNode (getTaskMetadata teams) (buildContractDirectors ps) (ttask t)
                  \<in> set (taskNodesOf teams ps)" (is "?m \<in> _")
    by (simp add: taskNodesOf_def)
  then have mem: "?m \<in> set (assemble teams vs ps)" by (simp add: assemble_def)
  have par: "parentId x = IdRef (nid ?m)"
    by (simp add: t(4) mkTeamNode_def nid_mkTaskNode)
  have "climbs (Suc 2) (assemble teams vs ps) x"
    using par d mem
  proof (rule climbs_step)
    show "climbs 2 (assemble teams vs ps) ?m"
      using d m ni mem by (intro climbs_taskNode) auto
  qed
  then show ?thesis by (simp add: numeral_3_eq_3)
qed

lemma structural_cases:
  "m \<in> set (assemble teams vs ps) \<Longrightarrow> isStructural m \<Longrightarrow>
   m = rootNode \<or> m \<in> set (taskNodesOf teams ps) \<or> m \<in> set (teamNodesOf teams)"
  by (auto simp: assemble_def personNodesOf_def resolvedPersonNode_def personNode_def
        vacantNodesOf_def vacantNode_def)

lemma climbs_structural:
  assumes d: "distinct (map nid (assemble teams vs ps))"
    and tasks: "\<forall>t \<in> set teams. teamId t \<noteq> [] \<and> isActive t \<longrightarrow> ttask t \<noteq> []"
    and ni: "\<forall>m \<in> set (assemble teams vs ps). parentId m \<noteq> InheritedRef"
    and m: "m \<in> set (assemble teams vs ps)" and s: "isStructural m"
  shows "climbs 3 (assemble teams vs ps) m"
proof -
  from structural_cases[OF m s] consider
    "m = rootNode" | "m \<in> set (taskNodesOf teams ps)" | "m \<in> set (teamNodesOf teams)"
    by blast
  then show ?thesis
  proof cases
    case 1
    then show ?thesis by (simp add: isRoot_rootNode numeral_3_eq_3)
  next
    case 2
    then have "climbs 2 (assemble teams vs ps) m" using d ni m by (intro climbs_taskNode) auto
    then show ?thesis by (rule climbs_mono[rotated]) simp
  next
    case 3
    then show ?thesis using d tasks ni by (intro climbs_teamNode)
  qed
qed

lemma climbs_placed:
  assumes d: "distinct (map nid (assemble teams vs ps))"
    and tasks: "\<forall>t \<in> set teams. teamId t \<noteq> [] \<and> isActive t \<longrightarrow> ttask t \<noteq> []"
    and ni: "\<forall>m \<in> set (assemble teams vs ps). parentId m \<noteq> InheritedRef"
    and n: "n \<in> set (assemble teams vs ps)" and pl: "placed (assemble teams vs ps) n"
  shows "climbs 4 (assemble teams vs ps) n"
proof -
  from pl have "isStructural n \<or>
      (\<exists>m \<in> set (assemble teams vs ps). isStructural m \<and> parentId n = IdRef (nid m))"
    by (simp add: placed_def list_ex_iff)
  then show ?thesis
  proof
    assume "isStructural n"
    then have "climbs 3 (assemble teams vs ps) n"
      using climbs_structural[OF d tasks ni n] by simp
    then show ?thesis by (rule climbs_mono[rotated]) simp
  next
    assume "\<exists>m \<in> set (assemble teams vs ps). isStructural m \<and> parentId n = IdRef (nid m)"
    then obtain m where m: "m \<in> set (assemble teams vs ps)" "isStructural m"
      "parentId n = IdRef (nid m)"
      by blast
    have "climbs 3 (assemble teams vs ps) m"
      using climbs_structural[OF d tasks ni m(1,2)] .
    with m(3) d m(1) have "climbs (Suc 3) (assemble teams vs ps) n" by (rule climbs_step)
    then show ?thesis by (simp add: eval_nat_numeral)
  qed
qed

lemma climbs_placedWithin:
  assumes d: "distinct (map nid (assemble teams vs ps))"
    and tasks: "\<forall>t \<in> set teams. teamId t \<noteq> [] \<and> isActive t \<longrightarrow> ttask t \<noteq> []"
    and ni: "\<forall>m \<in> set (assemble teams vs ps). parentId m \<noteq> InheritedRef"
  shows "n \<in> set (assemble teams vs ps) \<Longrightarrow> placedWithin j (assemble teams vs ps) n \<Longrightarrow>
         climbs (4 + j) (assemble teams vs ps) n"
proof (induction j arbitrary: n)
  case 0
  then show ?case using climbs_placed[OF d tasks ni] by simp
next
  case (Suc j)
  show ?case
  proof (cases "placed (assemble teams vs ps) n")
    case True
    with Suc.prems(1) have "climbs 4 (assemble teams vs ps) n"
      by (intro climbs_placed[OF d tasks ni])
    then show ?thesis by (rule climbs_mono[rotated]) simp
  next
    case False
    with Suc.prems(2) obtain p m where pm: "parentId n = IdRef p"
      "find (\<lambda>m. nid m = p) (assemble teams vs ps) = Some m"
      "placedWithin j (assemble teams vs ps) m"
      by (auto split: option.splits parentRef.splits)
    from pm(2) have "m \<in> set (assemble teams vs ps)"
      by (auto simp: find_Some_iff)
    from Suc.IH[OF this pm(3)] have "climbs (4 + j) (assemble teams vs ps) m" .
    with pm(1,2) have "climbs (Suc (4 + j)) (assemble teams vs ps) n" by (rule climbs_via)
    then show ?thesis by simp
  qed
qed

text \<open>
  C1 (acyclicity with bounded depth), as the code supports it. Let \<^verbatim>\<open>getAllData\<close> succeed
  with a list whose ids are pairwise distinct and whose parent pointers are all strings (but
  for the root), and let every active team mapping name a task. If at most \<open>j\<close> supervisor
  links lead from a node to a node that is structural or hangs under a structural node, then
  following parent pointers from it reaches the root within \<open>4 + j\<close> steps. That is four steps
  for every structural node and every node placed under the root, a team or a task (person,
  team, task, director, root), and five for a person whose supervisor is so placed. Nothing
  is said when the supervisor links never lead to such a node: the resolver looks one level
  up only, and never at the supervisor's own placement.
\<close>

theorem bounded_climb:
  assumes "getAllData_try st = Inr nodes"
    and "distinct (map nid nodes)"
    and "\<forall>m \<in> set nodes. parentId m \<noteq> InheritedRef"
    and "\<forall>t \<in> set (teamMappings st). teamId t \<noteq> [] \<and> isActive t \<longrightarrow> ttask t \<noteq> []"
    and "n \<in> set nodes"
    and "placedWithin j nodes n"
  shows "climbs (4 + j) nodes n"
proof -
  have nodes: "nodes = assemble (teamMappings st) (vacantPositions st) (personnelOf st)"
    using assms(1) by (rule getAllData_try_nodes)
  show ?thesis
    using assms(2,3,5,6) unfolding nodes
    by (intro climbs_placedWithin[OF _ assms(4)]) auto
qed

text \<open>
  C1 as the specification states it fails twice. In Scenario A itself the lead is four steps
  from the root, not three, because the task node hangs under the director of its contract.
  And two records of one task that name each other as supervisor are each placed under the
  other by rule 2b: from either of them the root is never reached, and each is its own
  ancestor.
\<close>

theorem bounded_climb_counterexample:
  "getAllData_try treeStore = Inr (getAllData treeStore) \<and>
   map (\<lambda>n. (nid n, parentId n)) (getAllData treeStore)
     = [(''root'', NullRef), (''task:TASK-001'', IdRef ''100-001''),
        (''team:TEAM-001'', IdRef ''task:TASK-001''), (''100-001'', IdRef ''root''),
        (''310-003'', IdRef ''team:TEAM-001'')] \<and>
   \<not> climbs 3 (getAllData treeStore) (last (getAllData treeStore)) \<and>
   getAllData_try cycleStore = Inr (getAllData cycleStore) \<and>
   map (\<lambda>n. (nid n, parentId n)) (getAllData cycleStore)
     = [(''root'', NullRef), (''task:TASK-001'', IdRef ''root''),
        (''410-001'', IdRef ''410-002''), (''410-002'', IdRef ''410-001'')] \<and>
   \<not> climbs 3 (getAllData cycleStore) (last (getAllData cycleStore))"
  by code_simp

text \<open>The analyst placed under the lead of Scenario A: one supervisor link, and the root is
  reached in five steps, not in four.\<close>

theorem bounded_climb_witness:
  "map (\<lambda>n. (nid n, parentId n)) (getAllData chainStore)
     = [(''root'', NullRef), (''task:TASK-001'', IdRef ''100-001''),
        (''team:TEAM-001'', IdRef ''task:TASK-001''), (''100-001'', IdRef ''root''),
        (''310-003'', IdRef ''team:TEAM-001''), (''410-008'', IdRef ''310-003'')] \<and>
   placedWithin 1 (getAllData chainStore) (last (getAllData chainStore)) \<and>
   \<not> placedWithin 0 (getAllData chainStore) (last (getAllData chainStore)) \<and>
   climbs (4 + 1) (getAllData chainStore) (last (getAllData chainStore)) \<and>
   \<not> climbs 4 (getAllData chainStore) (last (getAllData chainStore))"
proof -
  have h1: "getAllData_try chainStore = Inr (getAllData chainStore)" by code_simp
  have h2: "distinct (map nid (getAllData chainStore))" by code_simp
  have h3: "\<forall>m \<in> set (getAllData chainStore). parentId m \<noteq> InheritedRef" by code_simp
  have h4: "\<forall>t \<in> set (teamMappings chainStore). teamId t \<noteq> [] \<and> isActive t \<longrightarrow> ttask t \<noteq> []"
    by code_simp
  have h5: "last (getAllData chainStore) \<in> set (getAllData chainStore)" by code_simp
  have h6: "placedWithin 1 (getAllData chainStore) (last (getAllData chainStore))" by code_simp
  have e1: "map (\<lambda>n. (nid n, parentId n)) (getAllData chainStore)
     = [(''root'', NullRef), (''task:TASK-001'', IdRef ''100-001''),
        (''team:TEAM-001'', IdRef ''task:TASK-001''), (''100-001'', IdRef ''root''),
        (''310-003'', IdRef ''team:TEAM-001''), (''410-008'', IdRef ''310-003'')]"
    by code_simp
  have e2: "\<not> placedWithin 0 (getAllData chainStore) (last (getAllData chainStore))"
    by code_simp
  have e3: "\<not> climbs 4 (getAllData chainStore) (last (getAllData chainStore))" by code_simp
  note c = bounded_climb[OF h1 h2 h3 h4 h5 h6]
  from e1 h6 e2 c e3 show ?thesis by blast
qed

text \<open>No side condition can be dropped: a team node of a mapping without task points at
  \<^verbatim>\<open>'task:'\<close>, which is no node; when a row without UPID carries the director's UPID as its
  email, the task node's parent pointer finds that row first, which hangs under the task; and
  when the contract of a task is spelled \<^verbatim>\<open>toString\<close> and no director owns that key, the task
  node's parent is the inherited function.\<close>

lemma bounded_climb_side_conditions:
  "map (\<lambda>n. (nid n, parentId n)) (getAllData tasklessTeamStore)
     = [(''root'', NullRef), (''task:TASK-001'', IdRef ''root''),
        (''team:TEAM-002'', IdRef ''task:''), (''410-004'', IdRef ''task:TASK-001'')] \<and>
   \<not> climbs 4 (getAllData tasklessTeamStore) (getAllData tasklessTeamStore ! 2) \<and>
   map (\<lambda>n. (nid n, parentId n)) (getAllData sharedIdStore)
     = [(''root'', NullRef), (''task:TASK-001'', IdRef ''100-001''),
        (''team:TEAM-001'', IdRef ''task:TASK-001''), (''100-001'', IdRef ''task:TASK-001''),
        (''100-001'', IdRef ''root'')] \<and>
   \<not> climbs 4 (getAllData sharedIdStore) (getAllData sharedIdStore ! 1) \<and>
   map (\<lambda>n. (nid n, parentId n)) (getAllData inheritedContractStore)
     = [(''root'', NullRef), (''task:TASK-001'', InheritedRef),
        (''team:TEAM-001'', IdRef ''task:TASK-001''), (''410-004'', IdRef ''task:TASK-001'')] \<and>
   \<not> climbs 4 (getAllData inheritedContractStore) (getAllData inheritedContractStore ! 1)"
  by code_simp

subsection \<open>Connectivity\<close>

text \<open>In every assembled list the parent of a person node is the id of a node of the list,
  and so is the parent of a task node unless it is the inherited member: each rule of
  \<^verbatim>\<open>_resolveParentId\<close> answers the root, a team or task id it has found in the set of node
  ids, or a UPID of the index.\<close>

lemma upid_person_node:
  assumes "buildUpidMap ps u \<noteq> None"
  shows "u \<in> set (map nid (assemble teams vs ps))"
proof -
  from assms have "u \<in> dom (buildUpidMap ps)" by (simp add: dom_def)
  then obtain q where q: "q \<in> set ps" "upid q = u" "u \<noteq> []"
    by (auto simp: dom_buildUpidMap)
  then have "nid (resolvedPersonNode teams ps q) = u"
    by (simp add: resolvedPersonNode_def personNode_def personId_def)
  moreover have "resolvedPersonNode teams ps q \<in> set (assemble teams vs ps)"
    using q(1) by (simp add: assemble_def personNodesOf_def)
  ultimately show ?thesis by force
qed

lemma resolveParentId_cases:
  "resolveParentId teams p upidMap t2t teamIds taskIds = r \<Longrightarrow>
   r = ID_ROOT \<or> r \<in> teamIds \<or> r \<in> taskIds \<or> upidMap r \<noteq> None"
  by (auto simp: resolveParentId_def teamRule_def sameTaskSupervisorRule_def taskRule_def
      split: if_splits option.splits)

lemma person_parent_resolves:
  assumes "n \<in> set (personNodesOf teams ps)"
  shows "parentResolves (assemble teams vs ps) n"
proof -
  from assms obtain p where p: "p \<in> set ps" "n = resolvedPersonNode teams ps p"
    by (auto simp: personNodesOf_def)
  define r where "r = resolveParentId teams p (buildUpidMap ps) (buildTeamToTask teams)
          (set (map nid (teamNodesOf teams))) (set (map nid (taskNodesOf teams ps)))"
  have par: "parentId n = IdRef r"
    by (simp add: p(2) resolvedPersonNode_def personNode_def r_def)
  from resolveParentId_cases[OF r_def[symmetric]]
  have "r \<in> set (map nid (assemble teams vs ps))"
  proof (elim disjE)
    assume "r = ID_ROOT"
    then show ?thesis by (simp add: assemble_def rootNode_def)
  next
    assume "r \<in> set (map nid (teamNodesOf teams))"
    then show ?thesis by (auto simp: assemble_def)
  next
    assume "r \<in> set (map nid (taskNodesOf teams ps))"
    then show ?thesis by (auto simp: assemble_def)
  next
    assume "buildUpidMap ps r \<noteq> None"
    then show ?thesis by (rule upid_person_node)
  qed
  with par show ?thesis by (simp add: parentResolves_def)
qed

lemma task_parent_resolves:
  assumes "n \<in> set (taskNodesOf teams ps)" and "parentId n \<noteq> InheritedRef"
  shows "parentResolves (assemble teams vs ps) n"
proof -
  from assms(1) obtain tid
    where n: "n = mkTaskNode (getTaskMetadata teams) (buildContractDirectors ps) tid"
    by (auto simp: taskNodesOf_def)
  from taskNode_parent[OF n] assms(2) consider
    "parentId n = IdRef ID_ROOT"
    | p where "p \<in> set ps" "nodeType p = ''director''" "upid p \<noteq> []" "parentId n = IdRef (upid p)"
    by blast
  then show ?thesis
  proof cases
    case 1
    then show ?thesis by (simp add: parentResolves_def assemble_def rootNode_def)
  next
    case 2
    have "nid (resolvedPersonNode teams ps p) = upid p"
      using 2 by (simp add: director_node(2))
    moreover have "resolvedPersonNode teams ps p \<in> set (assemble teams vs ps)"
      using 2 by (intro director_node(1)) auto
    ultimately have "upid p \<in> set (map nid (assemble teams vs ps))" by force
    with 2(4) show ?thesis by (simp add: parentResolves_def)
  qed
qed

text \<open>
  C2 (connectivity, no dangling references) at a store the service can hold: the vacancy
  \<^verbatim>\<open>VAC-001-1\<close> names team \<^verbatim>\<open>TEAM-009\<close>, whose mapping is inactive. Lines 529 to 538 assign
  \<^verbatim>\<open>'team:TEAM-009'\<close> without asking whether that node exists, as rule 2a does for a person
  (\<^verbatim>\<open>teamNodeIds.has\<close>): the parent of the vacancy is the id of no node of the list, and it is
  not the root.
\<close>

theorem dangling_vacancy_parent:
  "getAllData_try danglingStore = Inr (getAllData danglingStore) \<and>
   map (\<lambda>n. (nid n, parentId n)) (getAllData danglingStore)
     = [(''root'', NullRef), (''task:TASK-001'', IdRef ''root''),
        (''410-004'', IdRef ''task:TASK-001''), (''VAC-001-1'', IdRef ''team:TEAM-009'')] \<and>
   map (parentResolves (getAllData danglingStore)) (tl (getAllData danglingStore))
     = [True, True, False]"
  by code_simp

section \<open>Properties of the write paths and the queries\<close>

subsection \<open>Unknown id\<close>

lemma findRowByUpid_None:
  "list_all (\<lambda>row. \<not> rowMatchesId colMap row i) rows \<Longrightarrow> findRowByUpid colMap i k rows = None"
  by (induction rows arbitrary: k) simp_all

lemma unauthorised_write_throws:
  "\<not> editPermitted st \<Longrightarrow>
   updatePerson st i updates = Inl PermissionDenied \<and> deletePerson st i = Inl PermissionDenied
   \<and> addPerson st person = Some (Inl PermissionDenied)"
  by (simp add: updatePerson_def deletePerson_def addPerson_def)

text \<open>
  C8 (not-found handling of the write paths is structured and atomic). For a call that has
  passed the permission gate (\<^verbatim>\<open>requirePermission\<close> stands before the \<^verbatim>\<open>try\<close> block; a
  refusal there is the permission error, which the specification lets propagate): when no data
  row of the Team List answers to the id, under the comparison the code makes (both sides as
  trimmed strings), \<^verbatim>\<open>updatePerson\<close> returns \<^verbatim>\<open>{success: false, error}\<close> and leaves the store
  as it was, and so does \<^verbatim>\<open>deletePerson\<close> for an id that does not start with \<^verbatim>\<open>VAC-\<close>. The
  message is \<^verbatim>\<open>'Person not found with UPID: ' + id\<close> when the sheet could be read, and the
  caught exception's message when it could not.
\<close>

theorem not_found_is_structured:
  assumes "editPermitted st" and "noRowMatches st i"
  shows "updatePerson st i updates = Inr (Failure (notFoundMessage st i), st) \<and>
         (\<not> startsWith i ''VAC-'' \<longrightarrow>
            deletePerson st i = Inr (Failure (notFoundMessage st i), st))"
proof (cases "teamList st")
  case None
  with assms(1) show ?thesis
    by (simp add: updatePerson_def deletePerson_def notFoundMessage_def)
next
  case (Some data)
  show ?thesis
  proof (cases data)
    case Nil
    with Some assms(1) show ?thesis
      by (simp add: updatePerson_def deletePerson_def notFoundMessage_def)
  next
    case (Cons headers rows)
    with Some assms(2) have "findRowByUpid (colMapOf headers) i 1 rows = None"
      by (simp add: noRowMatches_def findRowByUpid_None)
    with Some Cons assms(1) show ?thesis
      by (simp add: updatePerson_def deletePerson_def notFoundMessage_def)
  qed
qed

text \<open>An id that is not on the small roster.\<close>

theorem not_found_is_structured_witness:
  "editPermitted (rosterStore [activeRow]) \<and> noRowMatches (rosterStore [activeRow]) ''999-999'' \<and>
   \<not> startsWith ''999-999'' ''VAC-'' \<and>
   updatePerson (rosterStore [activeRow]) ''999-999'' [(''title'', Str ''Analyst II'')]
     = Inr (Failure ''Person not found with UPID: 999-999'', rosterStore [activeRow]) \<and>
   deletePerson (rosterStore [activeRow]) ''999-999''
     = Inr (Failure ''Person not found with UPID: 999-999'', rosterStore [activeRow])"
proof -
  have h1: "editPermitted (rosterStore [activeRow])" by code_simp
  have h2: "noRowMatches (rosterStore [activeRow]) ''999-999''" by code_simp
  have h3: "\<not> startsWith ''999-999'' ''VAC-''" by code_simp
  have m: "notFoundMessage (rosterStore [activeRow]) ''999-999''
             = ''Person not found with UPID: 999-999''" by code_simp
  from not_found_is_structured[OF h1 h2, of "[(''title'', Str ''Analyst II'')]"] h1 h2 h3 m
  show ?thesis by simp
qed

subsection \<open>Structural parent in an update\<close>

lemma fieldToHeader_parentId: "fieldToHeader ''parentId'' = None"
  by code_simp

lemma fieldToHeader_supervisorUpid: "fieldToHeader ''supervisorUpid'' = Some ''Supervisor UPID''"
  by code_simp

lemma store_teamList_same: "teamList st = Some data \<Longrightarrow> st\<lparr> teamList := Some data \<rparr> = st"
  by (cases st) simp

text \<open>
  C9 (structural \<^verbatim>\<open>parentId\<close> updates are dropped). For a call that has passed the permission
  gate and an id found at sheet row \<open>r\<close>: \<^verbatim>\<open>updatePerson(id, {parentId: p})\<close> returns
  \<^verbatim>\<open>{success: true, id}\<close>; when \<open>p\<close> is \<^verbatim>\<open>'root'\<close> or starts with \<^verbatim>\<open>task:\<close> or
  \<^verbatim>\<open>team:\<close> the store is left exactly as it was, and otherwise the only change is that \<open>p\<close>
  is written into the \<^verbatim>\<open>Supervisor UPID\<close> cell of that row (no change when the sheet has no
  such column).
\<close>

theorem structural_parent_dropped:
  assumes "editPermitted st" and "teamList st = Some (headers # rows)"
    and "findRowByUpid (colMapOf headers) i 1 rows = Some r"
  shows "updatePerson st i [(''parentId'', Str p)] =
           Inr (Success (Str i),
                if isStructuralId p then st
                else st\<lparr> teamList :=
                       Some (case colMapOf headers ''Supervisor UPID'' of
                               None \<Rightarrow> headers # rows
                             | Some c \<Rightarrow> setCell (headers # rows) r (c + 1) (Str p)) \<rparr>)"
proof -
  have n: "splitNameOnUpdate [(''parentId'', Str p)] = Inr [(''parentId'', Str p)]"
    by (simp add: splitNameOnUpdate_def objGet_def)
  show ?thesis
  proof (cases "isStructuralId p")
    case True
    then have "parentIdToSupervisor [(''parentId'', Str p)] = Inr [(''parentId'', Str p)]"
      by (simp add: parentIdToSupervisor_def objGet_def)
    with assms n True show ?thesis
      by (simp add: updatePerson_def writeField_def fieldToHeader_parentId store_teamList_same)
  next
    case False
    then have "parentIdToSupervisor [(''parentId'', Str p)]
                 = Inr [(''parentId'', Str p), (''supervisorUpid'', Str p)]"
      by (simp add: parentIdToSupervisor_def objGet_def)
    with assms n False show ?thesis
      by (simp add: updatePerson_def writeField_def fieldToHeader_parentId
            fieldToHeader_supervisorUpid split: option.splits)
  qed
qed

text \<open>The analyst of the small roster, moved under a team, under the root, and under
  \<^verbatim>\<open>100-001\<close>.\<close>

theorem structural_parent_dropped_witness:
  "updatePerson (rosterStore [activeRow]) ''410-004'' [(''parentId'', Str ''team:TEAM-001'')]
     = Inr (Success (Str ''410-004''), rosterStore [activeRow]) \<and>
   updatePerson (rosterStore [activeRow]) ''410-004'' [(''parentId'', Str ''root'')]
     = Inr (Success (Str ''410-004''), rosterStore [activeRow]) \<and>
   updatePerson (rosterStore [activeRow]) ''410-004'' [(''parentId'', Str ''100-001'')]
     = Inr (Success (Str ''410-004''), rosterStore [activeRow[7 := Str ''100-001'']])"
proof -
  have h1: "editPermitted (rosterStore [activeRow])" by code_simp
  have h2: "teamList (rosterStore [activeRow]) = Some (rosterHeaders # [activeRow])" by code_simp
  have h3: "findRowByUpid (colMapOf rosterHeaders) ''410-004'' 1 [activeRow] = Some 2"
    by code_simp
  have s1: "isStructuralId ''team:TEAM-001''" by code_simp
  have s2: "isStructuralId ''root''" by code_simp
  have s3: "\<not> isStructuralId ''100-001''" by code_simp
  have w: "(rosterStore [activeRow])\<lparr> teamList :=
              Some (case colMapOf rosterHeaders ''Supervisor UPID'' of
                      None \<Rightarrow> rosterHeaders # [activeRow]
                    | Some c \<Rightarrow> setCell (rosterHeaders # [activeRow]) 2 (c + 1) (Str ''100-001'')) \<rparr>
           = rosterStore [activeRow[7 := Str ''100-001'']]"
    by code_simp
  from structural_parent_dropped[OF h1 h2 h3, of "''team:TEAM-001''"]
       structural_parent_dropped[OF h1 h2 h3, of "''root''"]
       structural_parent_dropped[OF h1 h2 h3, of "''100-001''"]
       s1 s2 s3 w
  show ?thesis by simp
qed

subsection \<open>Identifier generation\<close>

































lemma identifier_columns:
  "TEAM_LIST_HEADERS ! 12 = ''Contract Personnel Code (CPC)''"
  "TEAM_LIST_HEADERS ! 13 = ''Heirarchy Identifier (HID)''"
  "TEAM_LIST_HEADERS ! 14 = ''Unique Personnel ID (UPID)''"
  by (simp_all add: TEAM_LIST_HEADERS_def)




text \<open>The generated HID is not written to the HID cell, so it does not enter the next
  maximum: on a sheet with the full header row, adding the same person twice returns the id
  \<^verbatim>\<open>400-005\<close> both times.\<close>

lemma repeated_add_same_id:
  "map_option (map_sum id fst) (addPerson fullSheetStore newAnalyst)
     = Some (Inr (Success (Str ''400-005''))) \<and>
   map upid (personnelOf afterFirstAdd) = [''410-004'', ''400-005''] \<and>
   map hid (personnelOf afterFirstAdd) = [''004'', []] \<and>
   map_option (map_sum id fst) (addPerson afterFirstAdd newAnalyst)
     = Some (Inr (Success (Str ''400-005'')))"
  by code_simp

subsection \<open>Lookup by email\<close>

text \<open>The string methods of the code agree with the comparison of the specification:
  \<^verbatim>\<open>toLowerCase\<close> gives the small letters and \<^verbatim>\<open>trim\<close> removes the blanks.\<close>

lemma lowerCaseLetters_smallOf: "lowerCaseLetters = map smallOf upperCaseLetters"
  by code_simp

lemma upperCaseLetters_codes:
  "upperCaseLetters = map char_of ([65..<91] @ [192..<215] @ [216..<223] :: nat list)"
  by code_simp

lemma isCapital_upperCaseLetters: "isCapital c \<Longrightarrow> c \<in> set upperCaseLetters"
proof -
  assume "isCapital c"
  then have "(of_char c :: nat) \<in> {65..<91} \<union> ({192..<215} \<union> {216..<223})"
    by (auto simp: isCapital_def Let_def)
  then have "(of_char c :: nat) \<in> set ([65..<91] @ [192..<215] @ [216..<223])"
    by (simp only: set_append set_upt)
  then have "char_of (of_char c :: nat) \<in> set upperCaseLetters"
    unfolding upperCaseLetters_codes set_map by (rule imageI)
  then show ?thesis by simp
qed

lemma lowerChar_smallOf: "lowerChar c = smallOf c"
proof (cases "c \<in> set upperCaseLetters")
  case True
  then show ?thesis
    by (simp add: lowerChar_def lowerCaseLetters_smallOf map_of_zip_map)
next
  case False
  then have "\<not> isCapital c" using isCapital_upperCaseLetters by blast
  with False show ?thesis
    by (simp add: lowerChar_def lowerCaseLetters_smallOf map_of_zip_map smallOf_def)
qed

lemma toLowerCase_smallOf: "toLowerCase s = map smallOf s"
  by (simp add: toLowerCase_def lowerChar_smallOf)

lemma isSpace_isBlank_all: "\<forall>c. isSpace c = isBlank c"
  by code_simp

lemma isSpace_isBlank: "isSpace = isBlank"
  by (rule ext) (simp add: isSpace_isBlank_all)

lemma stripLeft_dropWhile: "stripLeft s = dropWhile isBlank s"
  by (induction s) simp_all

lemma stripRight_Nil: "stripRight s = [] \<longleftrightarrow> (\<forall>c \<in> set s. isBlank c)"
  by (induction s) (auto simp: Let_def)

lemma stripRight_dropWhile: "stripRight s = rev (dropWhile isBlank (rev s))"
proof (induction s)
  case Nil
  then show ?case by simp
next
  case (Cons c cs)
  show ?case
  proof (cases "\<forall>x \<in> set cs. isBlank x")
    case True
    then have "stripRight cs = []" by (simp add: stripRight_Nil)
    with True show ?thesis by (simp add: dropWhile_append)
  next
    case False
    then have "stripRight cs \<noteq> []" by (simp add: stripRight_Nil)
    with False Cons.IH show ?thesis by (simp add: dropWhile_append Let_def)
  qed
qed

lemma trim_strip: "trim s = stripRight (stripLeft s)"
  by (simp add: trim_def isSpace_isBlank stripLeft_dropWhile stripRight_dropWhile)

lemma trim_toLowerCase: "trim (toLowerCase s) = normalisedEmail s"
  by (simp add: normalisedEmail_def trim_strip toLowerCase_smallOf)

text \<open>The comparison disregards the case of letters and the blanks around an address.\<close>

lemma isBlank_smallOf: "isBlank (smallOf c) = isBlank c"
  by (auto simp: isBlank_def smallOf_def isCapital_def Let_def of_char_of)

lemma smallOf_idem: "smallOf (smallOf c) = smallOf c"
  by (auto simp: smallOf_def isCapital_def Let_def of_char_of)

lemma smallOf_comp: "smallOf \<circ> smallOf = smallOf"
  by (rule ext) (simp add: smallOf_idem)

lemma stripLeft_blanks: "list_all isBlank l \<Longrightarrow> stripLeft (l @ s) = stripLeft s"
  by (induction l) simp_all

lemma stripRight_blanks: "list_all isBlank r \<Longrightarrow> stripRight (s @ r) = stripRight s"
  by (simp add: stripRight_dropWhile dropWhile_append list_all_iff)

lemma strip_blanks:
  assumes "list_all isBlank l" and "list_all isBlank r"
  shows "stripRight (stripLeft (l @ s @ r)) = stripRight (stripLeft s)"
proof -
  have a: "stripLeft (l @ s @ r) = stripLeft (s @ r)" by (rule stripLeft_blanks[OF assms(1)])
  show ?thesis
  proof (cases "\<forall>c \<in> set s. isBlank c")
    case True
    with assms(2) have "\<forall>c \<in> set (s @ r). isBlank c" by (auto simp: list_all_iff)
    then have "stripLeft (s @ r) = []" unfolding stripLeft_dropWhile by simp
    moreover from True have "stripLeft s = []" unfolding stripLeft_dropWhile by simp
    ultimately show ?thesis by (simp add: a)
  next
    case False
    then obtain x where "x \<in> set s" and "\<not> isBlank x" by blast
    then have "stripLeft (s @ r) = stripLeft s @ r"
      unfolding stripLeft_dropWhile by (rule dropWhile_append1)
    then show ?thesis by (simp add: a stripRight_blanks[OF assms(2)])
  qed
qed

lemma emailsMatch_insensitive:
  assumes "list_all isBlank l" and "list_all isBlank r"
  shows "emailsMatch (l @ a @ r) a" and "emailsMatch (map smallOf a) a"
proof -
  from assms have "list_all isBlank (map smallOf l)" and "list_all isBlank (map smallOf r)"
    by (simp_all add: list_all_iff isBlank_smallOf)
  then show "emailsMatch (l @ a @ r) a"
    by (simp add: emailsMatch_def normalisedEmail_def strip_blanks)
  show "emailsMatch (map smallOf a) a"
    by (simp add: emailsMatch_def normalisedEmail_def smallOf_comp)
qed

text \<open>
  C10 (email lookup normalisation). For a non-empty string \<open>e\<close>, \<^verbatim>\<open>getByEmail(e)\<close> returns
  exactly the nodes of \<^verbatim>\<open>getAllData()\<close>, in their order, whose email is not empty and matches
  \<open>e\<close> under the comparison of the specification (both lower-cased and trimmed); for a falsy
  argument it returns the empty list whatever the store holds, an unreadable store included.
\<close>

theorem getByEmail_normalized:
  "(e \<noteq> [] \<longrightarrow>
      getByEmail st (Str e)
        = Inr (filter (\<lambda>n. nemail n \<noteq> [] \<and> emailsMatch (nemail n) e) (getAllData st))) \<and>
   (\<not> truthy v \<longrightarrow> getByEmail st v = Inr [])"
  by (simp add: getByEmail_def trim_toLowerCase emailsMatch_def)

text \<open>On a roster of five people, a padded, upper-case spelling of the analyst's address
  finds the two people entered under that address and nobody else: not the person whose
  address has a blank inside, not the person without an address, no structural node. The
  empty string and \<^verbatim>\<open>null\<close> find nothing.\<close>

theorem getByEmail_normalized_witness:
  "map (\<lambda>n. (nid n, nemail n)) (getAllData emailStore)
     = [(''root'', []), (''task:TASK-001'', []),
        (''410-004'', ''sam@example.org''), (''410-005'', ''Sam@Example.ORG''),
        (''410-006'', ''pat@example.org''), (''410-007'', ''sam @example.org''),
        (''410-008'', [])] \<and>
   map_sum id (map nid) (getByEmail emailStore (Str ''  SAM@example.ORG ''))
     = Inr [''410-004'', ''410-005''] \<and>
   getByEmail emailStore (Str ''  SAM@example.ORG '')
     = Inr [getAllData emailStore ! 2, getAllData emailStore ! 3] \<and>
   getByEmail (emailStore\<lparr> teamList := None \<rparr>) (Str []) = Inr [] \<and>
   getByEmail emailStore Null = Inr []"
proof -
  have h1: "''  SAM@example.ORG '' \<noteq> []" by simp
  have h2: "\<not> truthy (Str [])" by simp
  have h3: "\<not> truthy Null" by simp
  have d: "map (\<lambda>n. (nid n, nemail n)) (getAllData emailStore)
     = [(''root'', []), (''task:TASK-001'', []),
        (''410-004'', ''sam@example.org''), (''410-005'', ''Sam@Example.ORG''),
        (''410-006'', ''pat@example.org''), (''410-007'', ''sam @example.org''),
        (''410-008'', [])]"
    by code_simp
  have f: "filter (\<lambda>n. nemail n \<noteq> [] \<and> emailsMatch (nemail n) ''  SAM@example.ORG '')
             (getAllData emailStore)
           = [getAllData emailStore ! 2, getAllData emailStore ! 3]"
    by code_simp
  have i: "map nid [getAllData emailStore ! 2, getAllData emailStore ! 3]
             = [''410-004'', ''410-005'']"
    by code_simp
  from getByEmail_normalized[of "''  SAM@example.ORG ''" emailStore Null] h1 h3
  have g: "getByEmail emailStore (Str ''  SAM@example.ORG '')
             = Inr (filter (\<lambda>n. nemail n \<noteq> [] \<and> emailsMatch (nemail n) ''  SAM@example.ORG '')
                      (getAllData emailStore))"
    and n: "getByEmail emailStore Null = Inr []"
    by blast+
  from getByEmail_normalized[of "[]" "emailStore\<lparr> teamList := None \<rparr>" "Str []"] h2
  have e: "getByEmail (emailStore\<lparr> teamList := None \<rparr>) (Str []) = Inr []" by blast
  from g have g2: "getByEmail emailStore (Str ''  SAM@example.ORG '')
             = Inr [getAllData emailStore ! 2, getAllData emailStore ! 3]"
    by (simp only: f)
  then have g3: "map_sum id (map nid) (getByEmail emailStore (Str ''  SAM@example.ORG ''))
     = Inr [''410-004'', ''410-005'']"
    by (simp only: map_sum.simps i)
  from d g3 g2 e n show ?thesis by blast
qed

end
